theory Spec2Isabelle
  imports Main "HOL-Library.Sublist" "HOL-Library.Monad_Syntax"
begin

section \<open>Text\<close>

text \<open>
  JavaScript strings are modelled as \<^typ>\<open>string\<close>, one \<^typ>\<open>char\<close> per code unit, for
  ASCII text: \<open>toUpperCase\<close> and \<open>toLowerCase\<close> change the 26 ASCII letters and leave every
  other character as it is. The characters that cannot be written inside a string literal
  get a name.
\<close>

abbreviation sq :: string where "sq \<equiv> [CHR 0x27]"
abbreviation dq :: string where "dq \<equiv> [CHR 0x22]"
abbreviation bt :: string where "bt \<equiv> [CHR 0x60]"
abbreviation nl :: string where "nl \<equiv> [CHR 0x0A]"
abbreviation tab :: string where "tab \<equiv> [CHR 0x09]"
abbreviation tab2 :: string where "tab2 \<equiv> [CHR 0x09, CHR 0x09]"
abbreviation tab3 :: string where "tab3 \<equiv> [CHR 0x09, CHR 0x09, CHR 0x09]"
abbreviation tab4 :: string where "tab4 \<equiv> [CHR 0x09, CHR 0x09, CHR 0x09, CHR 0x09]"
abbreviation tab5 :: string where "tab5 \<equiv> [CHR 0x09, CHR 0x09, CHR 0x09, CHR 0x09, CHR 0x09]"
abbreviation tab6 :: string where
  "tab6 \<equiv> [CHR 0x09, CHR 0x09, CHR 0x09, CHR 0x09, CHR 0x09, CHR 0x09]"

definition lowers :: string where
  "lowers = ''abcdefghijklmnopqrstuvwxyz''"

definition uppers :: string where
  "uppers = ''ABCDEFGHIJKLMNOPQRSTUVWXYZ''"

definition upperChar :: "char \<Rightarrow> char" where
  "upperChar c = (case map_of (zip lowers uppers) c of Some u \<Rightarrow> u | None \<Rightarrow> c)"

definition lowerChar :: "char \<Rightarrow> char" where
  "lowerChar c = (case map_of (zip uppers lowers) c of Some l \<Rightarrow> l | None \<Rightarrow> c)"

text \<open>\<open>String.prototype.toUpperCase\<close> and \<open>toLowerCase\<close>.\<close>

definition toUpperCase :: "string \<Rightarrow> string" where
  "toUpperCase s = map upperChar s"

definition toLowerCase :: "string \<Rightarrow> string" where
  "toLowerCase s = map lowerChar s"

text \<open>
  \<open>Array.prototype.join\<close>. An array interpolated into a template literal without a
  \<open>join\<close> is converted by \<open>Array.prototype.toString\<close>, which is \<open>join(",")\<close>.
\<close>

fun join :: "string \<Rightarrow> string list \<Rightarrow> string" where
  "join sep [] = []"
| "join sep [x] = x"
| "join sep (x # y # ys) = x @ sep @ join sep (y # ys)"

definition arrayToString :: "string list \<Rightarrow> string" where
  "arrayToString xs = join '','' xs"

text \<open>
  \<open>xs[i]\<close> in JavaScript is \<open>undefined\<close> outside the array; reading a property of
  \<open>undefined\<close> throws a \<open>TypeError\<close>. \<open>None\<close> is that \<open>undefined\<close> here, and in
  the result of a function \<open>None\<close> is the \<open>TypeError\<close> thrown (the only exception this
  code can raise).
\<close>

definition at :: "'a list \<Rightarrow> nat \<Rightarrow> 'a option" where
  "at xs i = (if i < length xs then Some (xs ! i) else None)"

text \<open>\<open>xs.map(f)\<close> where the callback may throw.\<close>

fun mapM :: "('a \<Rightarrow> 'b option) \<Rightarrow> 'a list \<Rightarrow> 'b list option" where
  "mapM f [] = Some []"
| "mapM f (x # xs) = do { y \<leftarrow> f x; ys \<leftarrow> mapM f xs; Some (y # ys) }"

section \<open>The data model\<close>

text \<open>
  The objects of a diagram, with the properties \<open>toSQL.js\<close> reads. \<open>f_size\<close> is the
  size as the template literals print it, and it is falsy when empty. The entries of a
  \<open>Type\<close> have the shape of a field.
\<close>

record Field =
  f_name :: string
  f_type :: string
  f_size :: string
  f_values :: "string list"
  f_notNull :: bool
  f_unique :: bool
  f_increment :: bool
  f_primary :: bool
  f_default :: string
  f_check :: string
  f_comment :: string

record Index =
  i_name :: string
  i_unique :: bool
  i_fields :: "string list"

record Table =
  t_id :: nat
  t_name :: string
  t_comment :: string
  t_fields :: "Field list"
  t_indices :: "Index list"

record Reference =
  startTableId :: nat
  startFieldId :: nat
  endTableId :: nat
  endFieldId :: nat
  updateConstraint :: string
  deleteConstraint :: string

record Type =
  ty_name :: string
  ty_comment :: string
  ty_fields :: "Field list"

record Diagram =
  tables :: "Table list"
  references :: "Reference list"
  types :: "Type list"

section \<open>utils.js\<close>

text \<open>
  \<open>strHasQuotes\<close>: false below two characters, else the first and the last character
  are the same quote character.
\<close>

definition strHasQuotes :: "string \<Rightarrow> bool" where
  "strHasQuotes str =
     (if length str < 2 then False
      else (str ! 0 = str ! (length str - 1) \<and> str ! 0 = CHR 0x27) \<or>
           (str ! 0 = str ! (length str - 1) \<and> str ! 0 = CHR 0x22) \<or>
           (str ! 0 = str ! (length str - 1) \<and> str ! 0 = CHR 0x60))"

text \<open>The constant \<open>keywords\<close> of \<open>utils.js\<close>.\<close>

definition keywords_list :: "string list" where
  "keywords_list = [''CURRENT_TIMESTAMP'', ''NULL'']"

definition isKeyword :: "string \<Rightarrow> bool" where
  "isKeyword str = (toUpperCase str \<in> set keywords_list)"

text \<open>
  \<open>isFunction\<close> tests the regular expression \<^verbatim>\<open>\w+\([^)]*\)$\<close>. \<open>\w\<close> is a letter, a
  digit or the underscore. \<open>matchArgs\<close> matches \<^verbatim>\<open>[^)]*\)$\<close>: it runs over the
  characters that are not a closing parenthesis, and the first closing parenthesis must
  be the last character. \<open>matchWord\<close> matches \<^verbatim>\<open>\w*\([^)]*\)$\<close>, the rest of the pattern
  once one word character is read, and \<open>isFunction\<close> tries every start position, as
  \<open>test\<close> does for a pattern with no anchor at its start.
\<close>

definition isWordChar :: "char \<Rightarrow> bool" where
  "isWordChar c = (c \<in> set (lowers @ uppers @ ''0123456789_''))"

fun matchArgs :: "string \<Rightarrow> bool" where
  "matchArgs [] = False"
| "matchArgs (c # cs) = (if c = CHR '')'' then cs = [] else matchArgs cs)"

fun matchWord :: "string \<Rightarrow> bool" where
  "matchWord [] = False"
| "matchWord (c # cs) = ((c = CHR ''('' \<and> matchArgs cs) \<or> (isWordChar c \<and> matchWord cs))"

fun isFunction :: "string \<Rightarrow> bool" where
  "isFunction [] = False"
| "isFunction (c # cs) = ((isWordChar c \<and> matchWord cs) \<or> isFunction cs)"

section \<open>toSQL.js: the literal serializer\<close>

definition hasQuotes :: "string \<Rightarrow> bool" where
  "hasQuotes type =
     (type \<in> set [''CHAR'', ''VARCHAR'', ''BINARY'', ''VARBINARY'', ''ENUM'', ''DATE'',
                   ''TIME'', ''TIMESTAMP'', ''DATETIME''])"

definition parseDefault :: "Field \<Rightarrow> string" where
  "parseDefault field =
     (if strHasQuotes (f_default field) \<or> isFunction (f_default field) \<or>
         isKeyword (f_default field) \<or> \<not> hasQuotes (f_type field)
      then f_default field
      else sq @ f_default field @ sq)"

section \<open>toSQL.js: the structured-type schema emitter\<close>

text \<open>
  The constant \<open>sqlDataTypes\<close> is imported from \<open>../data/constants\<close>, which is not among
  the sources: every function that reads it takes it as its first argument.
\<close>

definition getJsonType :: "string list \<Rightarrow> Field \<Rightarrow> string" where
  \<open>getJsonType sqlDataTypes f =
     (if f_type f \<notin> set sqlDataTypes
      then ''{ "type" : "object", additionalProperties : true }''
      else if f_type f \<in> set [''INT'', ''SMALLINT'', ''BIGINT'', ''DECIMAL'', ''NUMERIC'',
                                 ''REAL'', ''FLOAT'']
      then ''{ "type" : "number" }''
      else if f_type f = ''BOOLEAN'' then ''{ "type" : "boolean" }''
      else if f_type f = ''JSON'' then ''{ "type" : "object", "additionalProperties" : true }''
      else if f_type f = ''ENUM''
      then ''{'' @ nl @ tab5 @ ''"type" : "string",'' @ nl @ tab5 @ ''"enum" : ['' @
           join '', '' (map (\<lambda>v. dq @ v @ dq) (f_values f)) @ '']'' @ nl @ tab4 @ ''}''
      else if f_type f = ''SET''
      then ''{'' @ nl @ tab5 @ ''"type": "array",'' @ nl @ tab5 @ ''"items": {'' @ nl @ tab6 @
           ''"type": "string",'' @ nl @ tab6 @ ''"enum": ['' @
           join '', '' (map (\<lambda>v. dq @ v @ dq) (f_values f)) @ '']'' @ nl @ tab5 @ ''}'' @
           nl @ tab4 @ ''}''
      else ''{ "type" : "string"}'')\<close>

definition generateSchema :: "string list \<Rightarrow> Type \<Rightarrow> string" where
  \<open>generateSchema sqlDataTypes type =
     ''{'' @ nl @ tab3 @ ''"$schema": "http://json-schema.org/draft-04/schema#",'' @ nl @ tab3 @
     ''"type": "object",'' @ nl @ tab3 @ ''"properties": {'' @ nl @ tab4 @
     join ('','' @ nl @ tab4)
       (map (\<lambda>f. dq @ f_name f @ dq @ '' : '' @ getJsonType sqlDataTypes f) (ty_fields type)) @
     nl @ tab3 @ ''},'' @ nl @ tab3 @ ''"additionalProperties": false'' @ nl @ tab2 @ ''}''\<close>

section \<open>toSQL.js: the type mapping\<close>

definition isSized :: "string \<Rightarrow> bool" where
  "isSized type = (type \<in> set [''CHAR'', ''VARCHAR'', ''BINARY'', ''VARBINARY'', ''TEXT''])"

definition hasPrecision :: "string \<Rightarrow> bool" where
  "hasPrecision type = (type \<in> set [''DOUBLE'', ''NUMERIC'', ''DECIMAL'', ''FLOAT''])"

definition hasCheck :: "string \<Rightarrow> bool" where
  "hasCheck type =
     (type \<in> set [''INT'', ''SMALLINT'', ''BIGINT'', ''CHAR'', ''VARCHAR'', ''FLOAT'',
                   ''DECIMAL'', ''DOUBLE'', ''NUMERIC'', ''REAL''])"

text \<open>
  The values of \<open>dbms\<close> that the compilers pass to \<open>getTypeString\<close>; \<open>Mysql\<close> is the
  default of the parameter, and \<open>False\<close> the default of \<open>baseType\<close>. In the \<open>switch\<close>
  of the \<open>mssql\<close> branch a case that returns is \<open>Inr\<close> of the string returned, and a
  case that assigns \<open>type\<close> and breaks is \<open>Inl\<close> of the new \<open>type\<close>.
\<close>

datatype Dbms = Mysql | Postgres | Mssql

definition getTypeString :: "string list \<Rightarrow> Field \<Rightarrow> Dbms \<Rightarrow> bool \<Rightarrow> string" where
  \<open>getTypeString sqlDataTypes field dbms baseType =
     (case dbms of
        Mysql \<Rightarrow>
          if f_type field = ''UUID'' then ''VARCHAR(36)''
          else if hasPrecision (f_type field) \<or> isSized (f_type field)
          then f_type field @ (if f_size field \<noteq> [] then ''('' @ f_size field @ '')'' else [])
          else if f_type field = ''SET'' \<or> f_type field = ''ENUM''
          then f_type field @ ''('' @ join '', '' (map (\<lambda>v. dq @ v @ dq) (f_values field)) @ '')''
          else if f_type field \<notin> set sqlDataTypes then ''JSON''
          else f_type field
      | Postgres \<Rightarrow>
          if f_type field = ''SMALLINT'' \<and> f_increment field then ''smallserial''
          else if f_type field = ''INT'' \<and> f_increment field then ''serial''
          else if f_type field = ''BIGINT'' \<and> f_increment field then ''bigserial''
          else if f_type field = ''ENUM'' then f_name field @ ''_t''
          else if f_type field = ''SET'' then f_name field @ ''_t[]''
          else if f_type field = ''TIMESTAMP'' then ''TIMESTAMPTZ''
          else if f_type field = ''DATETIME'' then ''timestamp''
          else if isSized (f_type field)
          then (if f_type field = ''BINARY'' then ''bit''
                else if f_type field = ''VARBINARY'' then ''bit varying''
                else toLowerCase (f_type field)) @ ''('' @ f_size field @ '')''
          else if hasPrecision (f_type field) \<and> f_size field \<noteq> []
          then f_type field @ f_size field
          else toLowerCase (f_type field)
      | Mssql \<Rightarrow>
          (case (if f_type field = ''ENUM''
                 then Inr (if baseType then ''NVARCHAR(255)''
                           else ''NVARCHAR(255) CHECK(['' @ f_name field @ ''] in ('' @
                                join '', '' (map (\<lambda>v. sq @ v @ sq) (f_values field)) @ ''))'')
                 else if f_type field = ''VARCHAR'' then Inl ''NVARCHAR''
                 else if f_type field = ''UUID'' then Inl ''UNIQUEIDENTIFIER''
                 else if f_type field = ''DOUBLE'' then Inl ''FLOAT''
                 else if f_type field = ''BOOLEAN'' then Inr ''BIT''
                 else if f_type field = ''SET'' then Inr ''NVARCHAR(255)''
                 else if f_type field = ''BLOB'' then Inr ''VARBINARY(MAX)''
                 else if f_type field = ''JSON'' then Inr ''NVARCHAR(MAX)''
                 else if f_type field = ''TEXT'' then Inr ''TEXT''
                 else Inl (f_type field))
           of Inr returned \<Rightarrow> returned
            | Inl type \<Rightarrow>
                if isSized (f_type field) then type @ ''('' @ f_size field @ '')'' else type))\<close>

definition getSQLiteType :: "Field \<Rightarrow> string" where
  \<open>getSQLiteType field =
     (if f_type field \<in> set [''INT'', ''SMALLINT'', ''BIGINT'', ''BOOLEAN''] then ''INTEGER''
      else if f_type field \<in> set [''DECIMAL'', ''NUMERIC'', ''FLOAT'', ''DOUBLE'', ''REAL'']
      then ''REAL''
      else if f_type field \<in> set [''CHAR'', ''VARCHAR'', ''UUID'', ''TEXT'', ''DATE'', ''TIME'',
                                     ''TIMESTAMP'', ''DATETIME'', ''BINARY'', ''VARBINARY'']
      then ''TEXT''
      else if f_type field = ''ENUM''
      then ''TEXT CHECK("'' @ f_name field @ ''" in ('' @
           join '', '' (map (\<lambda>v. sq @ v @ sq) (f_values field)) @ ''))''
      else ''BLOB'')\<close>

section \<open>toSQL.js: MySQL\<close>

text \<open>
  Each compiler is one template literal in the source. The callbacks of its \<open>map\<close> calls
  are named here: the one for a field, for an index, for a table and for a reference.
  \<open>obj.types.find(...)\<close> is \<open>undefined\<close> when no type has the name, and
  \<open>generateSchema(undefined)\<close> throws on \<open>type.fields\<close>.
\<close>

definition mysqlField :: "string list \<Rightarrow> Diagram \<Rightarrow> Field \<Rightarrow> string option" where
  \<open>mysqlField sqlDataTypes obj field = do {
     check \<leftarrow>
       (if f_check field = [] \<or> \<not> hasCheck (f_type field)
        then (if f_type field \<notin> set sqlDataTypes
              then do {
                t \<leftarrow> find (\<lambda>t. ty_name t = toLowerCase (f_type field)) (types obj);
                Some ('' CHECK('' @ nl @ tab2 @ ''JSON_SCHEMA_VALID("'' @
                      generateSchema sqlDataTypes t @ ''", `'' @ f_name field @ ''`))'')
              }
              else Some [])
        else Some ('' CHECK('' @ f_check field @ '')''));
     Some ((if f_comment field = [] then [] else tab @ ''-- '' @ f_comment field @ nl) @
           tab @ ''`'' @ f_name field @ ''` '' @ getTypeString sqlDataTypes field Mysql False @
           (if f_notNull field then '' NOT NULL'' else []) @
           (if f_increment field then '' AUTO_INCREMENT'' else []) @
           (if f_unique field then '' UNIQUE'' else []) @
           (if f_default field \<noteq> [] then '' DEFAULT '' @ parseDefault field else []) @
           check @
           (if f_comment field \<noteq> [] then '' COMMENT '' @ sq @ f_comment field @ sq else []))
   }\<close>

definition mysqlIndex :: "Table \<Rightarrow> Index \<Rightarrow> string" where
  \<open>mysqlIndex table i =
     nl @ ''CREATE '' @ (if i_unique i then ''UNIQUE '' else []) @ ''INDEX `'' @ i_name i @ ''`'' @
     nl @ ''ON `'' @ t_name table @ ''` ('' @
     join '', '' (map (\<lambda>f. ''`'' @ f @ ''`'') (i_fields i)) @ '');''\<close>

definition mysqlTable :: "string list \<Rightarrow> Diagram \<Rightarrow> Table \<Rightarrow> string option" where
  \<open>mysqlTable sqlDataTypes obj table = do {
     lines \<leftarrow> mapM (mysqlField sqlDataTypes obj) (t_fields table);
     Some ((if t_comment table = [] then [] else ''/* '' @ t_comment table @ '' */'' @ nl) @
           ''CREATE TABLE `'' @ t_name table @ ''` ('' @ nl @
           join ('','' @ nl) lines @
           (if length (filter f_primary (t_fields table)) > 0
            then '','' @ nl @ tab @ ''PRIMARY KEY('' @
                 join '', '' (map (\<lambda>f. ''`'' @ f_name f @ ''`'')
                                  (filter f_primary (t_fields table))) @ '')''
            else []) @
           nl @ '')'' @
           (if t_comment table \<noteq> [] then '' COMMENT='' @ sq @ t_comment table @ sq else []) @
           '';'' @ nl @
           (if length (t_indices table) > 0
            then nl @ arrayToString (map (mysqlIndex table) (t_indices table))
            else []))
   }\<close>

definition mysqlReference :: "Diagram \<Rightarrow> Reference \<Rightarrow> string option" where
  \<open>mysqlReference obj r = do {
     startTable \<leftarrow> at (tables obj) (startTableId r);
     startField \<leftarrow> at (t_fields startTable) (startFieldId r);
     endTable \<leftarrow> at (tables obj) (endTableId r);
     endField \<leftarrow> at (t_fields endTable) (endFieldId r);
     Some (''ALTER TABLE `'' @ t_name startTable @ ''`'' @ nl @
           ''ADD FOREIGN KEY(`'' @ f_name startField @ ''`) REFERENCES `'' @
           t_name endTable @ ''`(`'' @ f_name endField @ ''`)'' @ nl @
           ''ON UPDATE '' @ toUpperCase (updateConstraint r) @
           '' ON DELETE '' @ toUpperCase (deleteConstraint r) @ '';'')
   }\<close>

definition jsonToMySQL :: "string list \<Rightarrow> Diagram \<Rightarrow> string option" where
  \<open>jsonToMySQL sqlDataTypes obj = do {
     ts \<leftarrow> mapM (mysqlTable sqlDataTypes obj) (tables obj);
     rs \<leftarrow> mapM (mysqlReference obj) (references obj);
     Some (join nl ts @ nl @ join nl rs)
   }\<close>

section \<open>toSQL.js: PostgreSQL\<close>

text \<open>
  The arrays of \<open>CREATE TYPE\<close> statements (of the types, and of the enumerated fields of
  a table) and of \<open>CREATE INDEX\<close> statements are interpolated as they are, so they
  go through \<open>arrayToString\<close>.
\<close>

definition postgresEnumType :: "string \<Rightarrow> Field \<Rightarrow> string" where
  \<open>postgresEnumType end f =
     ''CREATE TYPE "'' @ f_name f @ ''_t" AS ENUM ('' @
     join '', '' (map (\<lambda>v. sq @ v @ sq) (f_values f)) @ '');'' @ end\<close>

definition postgresType :: "string list \<Rightarrow> Type \<Rightarrow> string" where
  \<open>postgresType sqlDataTypes type =
     (let typeStatements =
            map (postgresEnumType nl)
                (filter (\<lambda>f. f_type f = ''ENUM'' \<or> f_type f = ''SET'') (ty_fields type))
      in if length typeStatements > 0
         then join [] typeStatements @
              (if ty_comment type = [] then [] else ''/**'' @ nl @ ty_comment type @ nl @ ''*/'' @ nl) @
              ''CREATE TYPE '' @ ty_name type @ '' AS ('' @ nl @
              join nl (map (\<lambda>f. tab @ f_name f @ '' '' @ getTypeString sqlDataTypes f Postgres False)
                           (ty_fields type)) @
              nl @ '');''
         else (if ty_comment type = [] then [] else ''/**'' @ nl @ ty_comment type @ nl @ ''*/'' @ nl) @
              ''CREATE TYPE '' @ ty_name type @ '' AS ('' @ nl @
              join nl (map (\<lambda>f. tab @ f_name f @ '' '' @ getTypeString sqlDataTypes f Postgres False)
                           (ty_fields type)) @
              nl @ '');'')\<close>

definition postgresField :: "string list \<Rightarrow> Field \<Rightarrow> string" where
  \<open>postgresField sqlDataTypes field =
     (if f_comment field = [] then [] else tab @ ''-- '' @ f_comment field @ nl) @
     tab @ ''"'' @ f_name field @ ''" '' @ getTypeString sqlDataTypes field Postgres False @
     (if f_notNull field then '' NOT NULL'' else []) @
     (if f_default field \<noteq> [] then '' DEFAULT '' @ parseDefault field else []) @
     (if f_check field = [] \<or> \<not> hasCheck (f_type field) then []
      else '' CHECK('' @ f_check field @ '')'')\<close>

definition postgresIndex :: "Table \<Rightarrow> Index \<Rightarrow> string" where
  \<open>postgresIndex table i =
     nl @ ''CREATE '' @ (if i_unique i then ''UNIQUE '' else []) @ ''INDEX "'' @ i_name i @ ''"'' @
     nl @ ''ON "'' @ t_name table @ ''" ('' @
     join '', '' (map (\<lambda>f. ''"'' @ f @ ''"'') (i_fields i)) @ '');''\<close>

definition postgresTable :: "string list \<Rightarrow> Table \<Rightarrow> string" where
  \<open>postgresTable sqlDataTypes table =
     (if t_comment table = [] then [] else ''/**'' @ nl @ t_comment table @ nl @ ''*/'' @ nl) @
     (if length (filter (\<lambda>f. f_type f = ''ENUM'' \<or> f_type f = ''SET'') (t_fields table)) > 0
      then arrayToString
             (map (postgresEnumType (nl @ nl))
                  (filter (\<lambda>f. f_type f = ''ENUM'' \<or> f_type f = ''SET'') (t_fields table)))
      else []) @
     ''CREATE TABLE "'' @ t_name table @ ''" ('' @ nl @
     join ('','' @ nl) (map (postgresField sqlDataTypes) (t_fields table)) @
     (if length (filter f_primary (t_fields table)) > 0
      then '','' @ nl @ tab @ ''PRIMARY KEY('' @
           join '', '' (map (\<lambda>f. ''"'' @ f_name f @ ''"'') (filter f_primary (t_fields table))) @
           '')''
      else []) @
     nl @ '');'' @ nl @
     (if length (t_indices table) > 0
      then arrayToString (map (postgresIndex table) (t_indices table))
      else [])\<close>

definition postgresReference :: "Diagram \<Rightarrow> Reference \<Rightarrow> string option" where
  \<open>postgresReference obj r = do {
     startTable \<leftarrow> at (tables obj) (startTableId r);
     startField \<leftarrow> at (t_fields startTable) (startFieldId r);
     endTable \<leftarrow> at (tables obj) (endTableId r);
     endField \<leftarrow> at (t_fields endTable) (endFieldId r);
     Some (''ALTER TABLE "'' @ t_name startTable @ ''"'' @ nl @
           ''ADD FOREIGN KEY("'' @ f_name startField @ ''") REFERENCES "'' @
           t_name endTable @ ''"("'' @ f_name endField @ ''")'' @ nl @
           ''ON UPDATE '' @ toUpperCase (updateConstraint r) @
           '' ON DELETE '' @ toUpperCase (deleteConstraint r) @ '';'')
   }\<close>

definition jsonToPostgreSQL :: "string list \<Rightarrow> Diagram \<Rightarrow> string option" where
  \<open>jsonToPostgreSQL sqlDataTypes obj = do {
     rs \<leftarrow> mapM (postgresReference obj) (references obj);
     Some (arrayToString (map (postgresType sqlDataTypes) (types obj)) @ nl @
           join nl (map (postgresTable sqlDataTypes) (tables obj)) @ nl @
           join nl rs)
   }\<close>

section \<open>toSQL.js: SQLite\<close>

text \<open>
  \<open>getInlineFK\<close> runs \<open>forEach\<close> over the references with the variable \<open>fk\<close>:
  \<open>getInlineFK_loop\<close> is that loop, \<open>fk\<close> its state. The callback returns at once when
  \<open>fk\<close> is set, and sets it at a reference that starts at the table.
\<close>

fun getInlineFK_loop :: "Table \<Rightarrow> Diagram \<Rightarrow> Reference list \<Rightarrow> string \<Rightarrow> string option" where
  \<open>getInlineFK_loop table obj [] fk = Some fk\<close>
| \<open>getInlineFK_loop table obj (r # rs) fk =
     (if fk \<noteq> [] then getInlineFK_loop table obj rs fk
      else if startTableId r = t_id table
      then do {
        startField \<leftarrow> at (t_fields table) (startFieldId r);
        endTable \<leftarrow> at (tables obj) (endTableId r);
        endField \<leftarrow> at (t_fields endTable) (endFieldId r);
        getInlineFK_loop table obj rs
          (''FOREIGN KEY ("'' @ f_name startField @ ''") REFERENCES "'' @ t_name endTable @
           ''"("'' @ f_name endField @ ''")'' @ nl @ tab @
           ''ON UPDATE '' @ toUpperCase (updateConstraint r) @
           '' ON DELETE '' @ toUpperCase (deleteConstraint r))
      }
      else getInlineFK_loop table obj rs fk)\<close>

definition getInlineFK :: "Table \<Rightarrow> Diagram \<Rightarrow> string option" where
  "getInlineFK table obj = getInlineFK_loop table obj (references obj) []"

definition sqliteField :: "Field \<Rightarrow> string" where
  \<open>sqliteField field =
     (if f_comment field = [] then [] else tab @ ''-- '' @ f_comment field @ nl) @
     tab @ ''"'' @ f_name field @ ''" '' @ getSQLiteType field @
     (if f_notNull field then '' NOT NULL'' else []) @
     (if f_unique field then '' UNIQUE'' else []) @
     (if f_default field \<noteq> [] then '' DEFAULT '' @ parseDefault field else []) @
     (if f_check field = [] \<or> \<not> hasCheck (f_type field) then []
      else '' CHECK('' @ f_check field @ '')'')\<close>

definition sqliteIndex :: "Table \<Rightarrow> Index \<Rightarrow> string" where
  \<open>sqliteIndex table i =
     nl @ ''CREATE '' @ (if i_unique i then ''UNIQUE '' else []) @ ''INDEX IF NOT EXISTS "'' @
     i_name i @ ''"'' @ nl @ ''ON "'' @ t_name table @ ''" ('' @
     join '', '' (map (\<lambda>f. ''"'' @ f @ ''"'') (i_fields i)) @ '');''\<close>

definition sqliteTable :: "Diagram \<Rightarrow> Table \<Rightarrow> string option" where
  \<open>sqliteTable obj table = do {
     inlineFK \<leftarrow> getInlineFK table obj;
     Some ((if t_comment table = [] then [] else ''/* '' @ t_comment table @ '' */'' @ nl) @
           ''CREATE TABLE IF NOT EXISTS "'' @ t_name table @ ''" ('' @ nl @
           join ('','' @ nl) (map sqliteField (t_fields table)) @
           (if length (filter f_primary (t_fields table)) > 0
            then '','' @ nl @ tab @ ''PRIMARY KEY('' @
                 join '', '' (map (\<lambda>f. ''"'' @ f_name f @ ''"'')
                                  (filter f_primary (t_fields table))) @ '')'' @
                 (if inlineFK \<noteq> [] then '','' @ nl else [])
            else []) @
           tab @ inlineFK @ nl @ '');'' @ nl @
           (if length (t_indices table) > 0
            then join nl (map (sqliteIndex table) (t_indices table))
            else []))
   }\<close>

definition jsonToSQLite :: "Diagram \<Rightarrow> string option" where
  "jsonToSQLite obj = do {
     ts \<leftarrow> mapM (sqliteTable obj) (tables obj);
     Some (join nl ts)
   }"

section \<open>toSQL.js: MariaDB\<close>

definition mariadbField :: "string list \<Rightarrow> Diagram \<Rightarrow> Field \<Rightarrow> string option" where
  \<open>mariadbField sqlDataTypes obj field = do {
     check \<leftarrow>
       (if f_check field = [] \<or> \<not> hasCheck (f_type field)
        then (if f_type field \<notin> set sqlDataTypes
              then do {
                t \<leftarrow> find (\<lambda>t. ty_name t = toLowerCase (f_type field)) (types obj);
                Some ('' CHECK('' @ nl @ tab2 @ ''JSON_SCHEMA_VALID('' @ sq @
                      generateSchema sqlDataTypes t @ sq @ '', `'' @ f_name field @ ''`))'')
              }
              else Some [])
        else Some ('' CHECK('' @ f_check field @ '')''));
     Some ((if f_comment field = [] then [] else tab @ ''-- '' @ f_comment field @ nl) @
           tab @ ''`'' @ f_name field @ ''` '' @ getTypeString sqlDataTypes field Mysql False @
           (if f_notNull field then '' NOT NULL'' else []) @
           (if f_increment field then '' AUTO_INCREMENT'' else []) @
           (if f_unique field then '' UNIQUE'' else []) @
           (if f_default field \<noteq> [] then '' DEFAULT '' @ parseDefault field else []) @
           check)
   }\<close>

definition mariadbIndex :: "Table \<Rightarrow> Index \<Rightarrow> string" where
  \<open>mariadbIndex table i =
     nl @ ''CREATE '' @ (if i_unique i then ''UNIQUE '' else []) @ ''INDEX `'' @ i_name i @ ''`'' @
     nl @ ''ON `'' @ t_name table @ ''` ('' @
     join '', '' (map (\<lambda>f. ''`'' @ f @ ''`'') (i_fields i)) @ '');''\<close>

definition mariadbTable :: "string list \<Rightarrow> Diagram \<Rightarrow> Table \<Rightarrow> string option" where
  \<open>mariadbTable sqlDataTypes obj table = do {
     lines \<leftarrow> mapM (mariadbField sqlDataTypes obj) (t_fields table);
     Some ((if t_comment table = [] then [] else ''/* '' @ t_comment table @ '' */'' @ nl) @
           ''CREATE OR REPLACE TABLE `'' @ t_name table @ ''` ('' @ nl @
           join ('','' @ nl) lines @
           (if length (filter f_primary (t_fields table)) > 0
            then '','' @ nl @ tab @ ''PRIMARY KEY('' @
                 join '', '' (map (\<lambda>f. ''`'' @ f_name f @ ''`'')
                                  (filter f_primary (t_fields table))) @ '')''
            else []) @
           nl @ '');'' @
           (if length (t_indices table) > 0
            then nl @ arrayToString (map (mariadbIndex table) (t_indices table))
            else []))
   }\<close>

definition mariadbReference :: "Diagram \<Rightarrow> Reference \<Rightarrow> string option" where
  \<open>mariadbReference obj r = do {
     startTable \<leftarrow> at (tables obj) (startTableId r);
     startField \<leftarrow> at (t_fields startTable) (startFieldId r);
     endTable \<leftarrow> at (tables obj) (endTableId r);
     endField \<leftarrow> at (t_fields endTable) (endFieldId r);
     Some (''ALTER TABLE `'' @ t_name startTable @ ''`'' @ nl @
           ''ADD FOREIGN KEY(`'' @ f_name startField @ ''`) REFERENCES `'' @
           t_name endTable @ ''`(`'' @ f_name endField @ ''`)'' @ nl @
           ''ON UPDATE '' @ toUpperCase (updateConstraint r) @
           '' ON DELETE '' @ toUpperCase (deleteConstraint r) @ '';'')
   }\<close>

definition jsonToMariaDB :: "string list \<Rightarrow> Diagram \<Rightarrow> string option" where
  \<open>jsonToMariaDB sqlDataTypes obj = do {
     ts \<leftarrow> mapM (mariadbTable sqlDataTypes obj) (tables obj);
     rs \<leftarrow> mapM (mariadbReference obj) (references obj);
     Some (join nl ts @ nl @ join nl rs)
   }\<close>

section \<open>toSQL.js: SQL Server\<close>

text \<open>
  The base type of a \<open>CREATE TYPE\<close> is taken from \<open>type.fields[0]\<close> behind the guard
  \<open>type.fields.length < 0\<close>. With no field, \<open>type.fields[0]\<close> is \<open>undefined\<close> and
  \<open>getTypeString\<close> throws on \<open>field.type\<close>.
\<close>

definition sqlserverType :: "string list \<Rightarrow> Type \<Rightarrow> string option" where
  \<open>sqlserverType sqlDataTypes type = do {
     base \<leftarrow>
       (if int (length (ty_fields type)) < 0 then Some []
        else do {
          field \<leftarrow> at (ty_fields type) 0;
          Some (getTypeString sqlDataTypes field Mssql True)
        });
     Some ((if ty_comment type = [] then [] else ''/**'' @ nl @ ty_comment type @ nl @ ''*/'' @ nl) @
           ''CREATE TYPE ['' @ ty_name type @ ''] FROM '' @ base @ '';'' @ nl @ ''GO'' @ nl)
   }\<close>

definition sqlserverField :: "string list \<Rightarrow> Field \<Rightarrow> string" where
  \<open>sqlserverField sqlDataTypes field =
     (if f_comment field = [] then [] else tab @ ''-- '' @ f_comment field @ nl) @
     tab @ ''['' @ f_name field @ ''] '' @ getTypeString sqlDataTypes field Mssql False @
     (if f_notNull field then '' NOT NULL'' else []) @
     (if f_increment field then '' IDENTITY'' else []) @
     (if f_unique field then '' UNIQUE'' else []) @
     (if f_default field \<noteq> [] then '' DEFAULT '' @ parseDefault field else []) @
     (if f_check field = [] \<or> \<not> hasCheck (f_type field) then []
      else '' CHECK('' @ f_check field @ '')'')\<close>

definition sqlserverIndex :: "Table \<Rightarrow> Index \<Rightarrow> string" where
  \<open>sqlserverIndex table i =
     nl @ ''CREATE '' @ (if i_unique i then ''UNIQUE '' else []) @ ''INDEX ['' @ i_name i @ '']'' @
     nl @ ''ON ['' @ t_name table @ ''] ('' @
     join '', '' (map (\<lambda>f. ''['' @ f @ '']'') (i_fields i)) @ '');'' @ nl @ ''GO'' @ nl\<close>

definition sqlserverTable :: "string list \<Rightarrow> Table \<Rightarrow> string" where
  \<open>sqlserverTable sqlDataTypes table =
     (if t_comment table = [] then [] else ''/**'' @ nl @ t_comment table @ nl @ ''*/'' @ nl) @
     ''CREATE TABLE ['' @ t_name table @ ''] ('' @ nl @
     join ('','' @ nl) (map (sqlserverField sqlDataTypes) (t_fields table)) @
     (if length (filter f_primary (t_fields table)) > 0
      then '','' @ nl @ tab @ ''PRIMARY KEY('' @
           join '', '' (map (\<lambda>f. ''['' @ f_name f @ '']'') (filter f_primary (t_fields table))) @
           '')''
      else []) @
     nl @ '');'' @ nl @ ''GO'' @ nl @
     (if length (t_indices table) > 0
      then arrayToString (map (sqlserverIndex table) (t_indices table))
      else [])\<close>

definition sqlserverReference :: "Diagram \<Rightarrow> Reference \<Rightarrow> string option" where
  \<open>sqlserverReference obj r = do {
     startTable \<leftarrow> at (tables obj) (startTableId r);
     startField \<leftarrow> at (t_fields startTable) (startFieldId r);
     endTable \<leftarrow> at (tables obj) (endTableId r);
     endField \<leftarrow> at (t_fields endTable) (endFieldId r);
     Some (''ALTER TABLE ['' @ t_name startTable @ '']'' @ nl @
           ''ADD FOREIGN KEY(['' @ f_name startField @ '']) REFERENCES ['' @
           t_name endTable @ ''](['' @ f_name endField @ ''])'' @ nl @
           ''ON UPDATE '' @ toUpperCase (updateConstraint r) @
           '' ON DELETE '' @ toUpperCase (deleteConstraint r) @ '';'' @ nl @ ''GO'')
   }\<close>

definition jsonToSQLServer :: "string list \<Rightarrow> Diagram \<Rightarrow> string option" where
  \<open>jsonToSQLServer sqlDataTypes obj = do {
     tys \<leftarrow> mapM (sqlserverType sqlDataTypes) (types obj);
     rs \<leftarrow> mapM (sqlserverReference obj) (references obj);
     Some (join nl tys @ nl @
           join nl (map (sqlserverTable sqlDataTypes) (tables obj)) @ nl @
           join nl rs)
   }\<close>

section \<open>Vocabulary of the claims\<close>

text \<open>
  Modelled from the spec: the constant \<open>sqlDataTypes\<close> of \<open>../data/constants\<close> is missing
  from the sources. These are the type names of the fixed vocabulary of the spec's data
  model (numeric, boolean, sized text/binary, precision-numeric, temporal, \<open>ENUM\<close>, \<open>SET\<close>,
  \<open>UUID\<close>, \<open>JSON\<close>), under the names \<open>toSQL.js\<close> tests for. It is the vocabulary of the
  concrete examples only; the theorems hold for every vocabulary.
\<close>

definition sqlDataTypes_model :: "string list" where
  "sqlDataTypes_model =
     [''INT'', ''SMALLINT'', ''BIGINT'', ''REAL'', ''BOOLEAN'',
      ''CHAR'', ''VARCHAR'', ''BINARY'', ''VARBINARY'', ''TEXT'',
      ''DECIMAL'', ''NUMERIC'', ''DOUBLE'', ''FLOAT'',
      ''DATE'', ''TIME'', ''TIMESTAMP'', ''DATETIME'',
      ''ENUM'', ''SET'', ''UUID'', ''JSON'']"



text \<open>The type names that \<open>getTypeString\<close> and \<open>getSQLiteType\<close> compare a field's type with.\<close>

definition mappedTypeNames :: "string list" where
  "mappedTypeNames =
     [''INT'', ''SMALLINT'', ''BIGINT'', ''BOOLEAN'', ''DECIMAL'', ''NUMERIC'', ''FLOAT'',
      ''DOUBLE'', ''REAL'', ''CHAR'', ''VARCHAR'', ''UUID'', ''TEXT'', ''DATE'', ''TIME'',
      ''TIMESTAMP'', ''DATETIME'', ''BINARY'', ''VARBINARY'', ''ENUM'', ''SET'', ''BLOB'',
      ''JSON'']"

text \<open>Concrete objects for the examples: a field with a name, a type and a default.\<close>

definition exampleField :: "string \<Rightarrow> string \<Rightarrow> string \<Rightarrow> Field" where
  "exampleField name type dflt =
     \<lparr>f_name = name, f_type = type, f_size = [], f_values = [], f_notNull = False,
      f_unique = False, f_increment = False, f_primary = False, f_default = dflt,
      f_check = [], f_comment = []\<rparr>"

definition exampleType :: "string \<Rightarrow> Field list \<Rightarrow> Type" where
  "exampleType name fs = \<lparr>ty_name = name, ty_comment = [], ty_fields = fs\<rparr>"

text \<open>A table with two indices, in a diagram of its own.\<close>

definition exampleIndex :: "string \<Rightarrow> Index" where
  "exampleIndex name = \<lparr>i_name = name, i_unique = False, i_fields = [''id'']\<rparr>"

definition indexedTable :: Table where
  "indexedTable =
     \<lparr>t_id = 0, t_name = ''users'', t_comment = [],
      t_fields = [exampleField ''id'' ''INT'' []],
      t_indices = [exampleIndex ''ix'', exampleIndex ''iy'']\<rparr>"

definition indexedDiagram :: Diagram where
  "indexedDiagram = \<lparr>tables = [indexedTable], references = [], types = []\<rparr>"

definition usersTable :: Table where
  "usersTable =
     \<lparr>t_id = 0, t_name = ''users'', t_comment = [],
      t_fields = [(exampleField ''id'' ''INT'' [])\<lparr>f_primary := True, f_increment := True\<rparr>,
                  (exampleField ''status'' ''ENUM'' [])\<lparr>f_values := [''active'', ''banned'']\<rparr>],
      t_indices = []\<rparr>"

definition usersDiagram :: Diagram where
  "usersDiagram = \<lparr>tables = [usersTable], references = [], types = []\<rparr>"



text \<open>
  The inline clause of one reference \<open>r\<close> that starts at \<open>table\<close>, as \<open>getInlineFK\<close> writes
  it.
\<close>

definition inlineForeignKey :: "Table \<Rightarrow> Diagram \<Rightarrow> Reference \<Rightarrow> string option" where
  \<open>inlineForeignKey table obj r = do {
     startField \<leftarrow> at (t_fields table) (startFieldId r);
     endTable \<leftarrow> at (tables obj) (endTableId r);
     endField \<leftarrow> at (t_fields endTable) (endFieldId r);
     Some (''FOREIGN KEY ("'' @ f_name startField @ ''") REFERENCES "'' @ t_name endTable @
           ''"("'' @ f_name endField @ ''")'' @ nl @ tab @
           ''ON UPDATE '' @ toUpperCase (updateConstraint r) @
           '' ON DELETE '' @ toUpperCase (deleteConstraint r))
   }\<close>

text \<open>Two tables and two references that both start at the second table.\<close>

definition ordersTable :: Table where
  "ordersTable =
     \<lparr>t_id = 1, t_name = ''orders'', t_comment = [],
      t_fields = [(exampleField ''id'' ''INT'' [])\<lparr>f_primary := True\<rparr>,
                  exampleField ''user_id'' ''INT'' []],
      t_indices = []\<rparr>"

definition firstReference :: Reference where
  "firstReference =
     \<lparr>startTableId = 1, startFieldId = 1, endTableId = 0, endFieldId = 0,
      updateConstraint = ''No Action'', deleteConstraint = ''cascade''\<rparr>"

definition secondReference :: Reference where
  "secondReference =
     \<lparr>startTableId = 1, startFieldId = 0, endTableId = 0, endFieldId = 0,
      updateConstraint = ''restrict'', deleteConstraint = ''set null''\<rparr>"

definition ordersDiagram :: Diagram where
  "ordersDiagram =
     \<lparr>tables = [usersTable, ordersTable], references = [firstReference, secondReference],
      types = []\<rparr>"



section \<open>Auxiliary facts on lists of results\<close>

lemma mapM_None: "x \<in> set xs \<Longrightarrow> f x = None \<Longrightarrow> mapM f xs = None"
  by (induction xs) (auto split: Option.bind_splits)

lemma mapM_eq_Some: "mapM f xs = Some ys \<longleftrightarrow> list_all2 (\<lambda>x y. f x = Some y) xs ys"
proof (induction xs arbitrary: ys)
  case Nil
  then show ?case by auto
next
  case (Cons x xs)
  have "mapM f (x # xs) = Some ys \<longleftrightarrow>
      (\<exists>y zs. f x = Some y \<and> mapM f xs = Some zs \<and> ys = y # zs)"
    by (auto split: Option.bind_splits)
  then show ?case
    by (auto simp: Cons.IH list_all2_Cons1)
qed


lemma mapM_member:
  assumes "mapM f xs = Some ys" and "x \<in> set xs"
  shows "\<exists>y. f x = Some y \<and> y \<in> set ys"
proof -
  from assms(2) obtain i where "i < length xs" "xs ! i = x"
    by (auto simp: in_set_conv_nth)
  moreover from assms(1) have "list_all2 (\<lambda>x y. f x = Some y) xs ys"
    by (simp add: mapM_eq_Some)
  ultimately have "f x = Some (ys ! i)" "i < length ys"
    by (auto simp: list_all2_conv_all_nth)
  then show ?thesis by auto
qed

lemma join_Cons: "ys \<noteq> [] \<Longrightarrow> join sep (x # ys) = x @ sep @ join sep ys"
  by (cases ys) auto

lemma join_append_Cons:
  "join sep (as @ y # bs) =
     (if as = [] then [] else join sep as @ sep) @ y @ (if bs = [] then [] else sep @ join sep bs)"
proof (induction as)
  case Nil
  then show ?case by (cases bs) auto
next
  case (Cons a as)
  have "join sep ((a # as) @ y # bs) = a @ sep @ join sep (as @ y # bs)"
    by (simp add: join_Cons)
  then show ?case using Cons by (simp add: join_Cons)
qed

lemma join_Cons_if: "join sep (y # bs) = y @ (if bs = [] then [] else sep @ join sep bs)"
  by (cases bs) auto

lemma sublist_join: "y \<in> set ys \<Longrightarrow> sublist y (join sep ys)"
proof -
  assume "y \<in> set ys"
  then obtain as bs where "ys = as @ y # bs" by (auto dest: split_list)
  then show ?thesis by (simp add: join_append_Cons)
qed

lemma sublist_join_pair: "sublist (x @ sep @ y) (join sep (as @ x # y # bs))"
proof -
  have "join sep (as @ x # y # bs) =
      (if as = [] then [] else join sep as @ sep) @ (x @ sep @ y) @
      (if bs = [] then [] else sep @ join sep bs)"
    by (simp add: join_append_Cons[of sep as x "y # bs"] join_Cons_if[of sep y bs])
  then show ?thesis
    by (metis sublist_appendI)
qed

lemma sublist_trans: "sublist xs ys \<Longrightarrow> sublist ys zs \<Longrightarrow> sublist xs zs"
  by (rule sublist_order.order.trans)

lemma sublist_in_append_right: "sublist xs zs \<Longrightarrow> sublist xs (ys @ zs)"
  by (simp add: sublist_append)

lemma sublist_in_append_left: "sublist xs ys \<Longrightarrow> sublist xs (ys @ zs)"
  by (simp add: sublist_append)

section \<open>The patterns of utils.js\<close>

text \<open>
  What the three matchers accept, as sets of strings: \<open>matchArgs\<close> the strings \<open>a)\<close>
  with no closing parenthesis in \<open>a\<close>, \<open>matchWord\<close> the strings \<open>w(a)\<close> with \<open>w\<close> made of
  word characters, and \<open>isFunction\<close> the strings that end with such a \<open>w(a)\<close>, \<open>w\<close> not
  empty, after any text.
\<close>

lemma matchArgs_iff: "matchArgs s \<longleftrightarrow> (\<exists>a. s = a @ '')'' \<and> CHR '')'' \<notin> set a)"
proof (induction s)
  case Nil
  then show ?case by simp
next
  case (Cons c s)
  show ?case
  proof (cases "c = CHR '')''")
    case True
    have "(\<exists>a. c # s = a @ '')'' \<and> CHR '')'' \<notin> set a) \<longleftrightarrow> s = []"
      using True by (auto simp: Cons_eq_append_conv)
    then show ?thesis using True by simp
  next
    case False
    have "(\<exists>a. c # s = a @ '')'' \<and> CHR '')'' \<notin> set a) \<longleftrightarrow> (\<exists>a. s = a @ '')'' \<and> CHR '')'' \<notin> set a)"
      using False by (auto simp: Cons_eq_append_conv)
    then show ?thesis using False Cons.IH by simp
  qed
qed

lemma matchWord_iff:
  "matchWord s \<longleftrightarrow> (\<exists>w a. s = w @ ''('' @ a @ '')'' \<and> list_all isWordChar w \<and> CHR '')'' \<notin> set a)"
proof (induction s)
  case Nil
  then show ?case by simp
next
  case (Cons c s)
  show ?case (is "?L \<longleftrightarrow> ?R")
  proof
    assume ?L
    then consider "c = CHR ''(''" "matchArgs s" | "isWordChar c" "matchWord s" by auto
    then show ?R
    proof cases
      case 1
      then obtain a where "s = a @ '')''" "CHR '')'' \<notin> set a" using matchArgs_iff by blast
      then have "c # s = [] @ ''('' @ a @ '')'' \<and> list_all isWordChar [] \<and> CHR '')'' \<notin> set a"
        using 1 by simp
      then show ?thesis by blast
    next
      case 2
      then obtain w a where "s = w @ ''('' @ a @ '')''" "list_all isWordChar w" "CHR '')'' \<notin> set a"
        using Cons.IH by blast
      then have "c # s = (c # w) @ ''('' @ a @ '')'' \<and> list_all isWordChar (c # w) \<and> CHR '')'' \<notin> set a"
        using 2 by simp
      then show ?thesis by blast
    qed
  next
    assume ?R
    then obtain w a where wa: "c # s = w @ ''('' @ a @ '')''" "list_all isWordChar w" "CHR '')'' \<notin> set a"
      by blast
    show ?L
    proof (cases w)
      case Nil
      then have "c = CHR ''(''" "s = a @ '')''" using wa by auto
      then show ?thesis using wa matchArgs_iff by auto
    next
      case (Cons d w')
      then have "c = d" "s = w' @ ''('' @ a @ '')''" "isWordChar d" "list_all isWordChar w'"
        using wa by auto
      then show ?thesis using wa Cons.IH by auto
    qed
  qed
qed

lemma isFunction_iff:
  "isFunction s \<longleftrightarrow>
     (\<exists>p w a. s = p @ w @ ''('' @ a @ '')'' \<and> w \<noteq> [] \<and> list_all isWordChar w \<and> CHR '')'' \<notin> set a)"
proof (induction s)
  case Nil
  then show ?case by simp
next
  case (Cons c s)
  show ?case (is "?L \<longleftrightarrow> ?R")
  proof
    assume ?L
    then consider "isWordChar c" "matchWord s" | "isFunction s" by auto
    then show ?R
    proof cases
      case 1
      then obtain w a where "s = w @ ''('' @ a @ '')''" "list_all isWordChar w" "CHR '')'' \<notin> set a"
        using matchWord_iff by blast
      then have "c # s = [] @ (c # w) @ ''('' @ a @ '')'' \<and> c # w \<noteq> [] \<and>
          list_all isWordChar (c # w) \<and> CHR '')'' \<notin> set a"
        using 1 by simp
      then show ?thesis by blast
    next
      case 2
      then obtain p w a where "s = p @ w @ ''('' @ a @ '')''" "w \<noteq> []" "list_all isWordChar w"
          "CHR '')'' \<notin> set a"
        using Cons.IH by blast
      then have "c # s = (c # p) @ w @ ''('' @ a @ '')'' \<and> w \<noteq> [] \<and>
          list_all isWordChar w \<and> CHR '')'' \<notin> set a"
        by simp
      then show ?thesis by blast
    qed
  next
    assume ?R
    then obtain p w a where pwa: "c # s = p @ w @ ''('' @ a @ '')''" "w \<noteq> []"
        "list_all isWordChar w" "CHR '')'' \<notin> set a"
      by blast
    show ?L
    proof (cases p)
      case Nil
      obtain d w' where w: "w = d # w'" using pwa(2) by (cases w) auto
      then have "c = d" "s = w' @ ''('' @ a @ '')''" "isWordChar d" "list_all isWordChar w'"
        using pwa Nil by auto
      then have "isWordChar c" "matchWord s" using pwa matchWord_iff by auto
      then show ?thesis by simp
    next
      case (Cons d p')
      then have "s = p' @ w @ ''('' @ a @ '')''" using pwa by auto
      then have "isFunction s" using pwa Cons.IH by blast
      then show ?thesis by simp
    qed
  qed
qed



section \<open>The literal serializer\<close>




text \<open>
  C9: the pattern is anchored at the end of the string only, so a default that ends with
  \<open>w(a)\<close> after any leading text \<open>p\<close> is taken for a function call, and \<open>parseDefault\<close>
  returns it unchanged whatever the type of the field, also a type that \<open>hasQuotes\<close>
  lists.
\<close>

theorem isFunction_anchored_at_end_only:
  assumes "w \<noteq> []" and "list_all isWordChar w" and "CHR '')'' \<notin> set a"
    and "f_default f = p @ w @ ''('' @ a @ '')''"
  shows "isFunction (f_default f) \<and> parseDefault f = f_default f"
proof -
  have "isFunction (f_default f)"
    unfolding isFunction_iff using assms by blast
  then show ?thesis by (simp add: parseDefault_def)
qed

theorem isFunction_anchored_at_end_only_witness:
  "hasQuotes ''VARCHAR'' \<and> isFunction ''abc foo(1)'' \<and>
   parseDefault (exampleField ''c'' ''VARCHAR'' ''abc foo(1)'') = ''abc foo(1)''"
proof -
  have "f_default (exampleField ''c'' ''VARCHAR'' ''abc foo(1)'') = ''abc '' @ ''foo'' @ ''('' @ ''1'' @ '')''"
    by (simp add: exampleField_def)
  from isFunction_anchored_at_end_only[OF _ _ _ this]
  show ?thesis by (simp add: isWordChar_def lowers_def hasQuotes_def exampleField_def)
qed

section \<open>The type mapping\<close>

text \<open>
  C4, as the claim states it, fails for SQL Server: a type name outside the vocabulary is
  not mapped to \<open>NVARCHAR(MAX)\<close>, which is the mapping of \<open>JSON\<close>; the \<open>default\<close> case of
  the \<open>switch\<close> keeps the name.
\<close>

theorem mssql_unrecognized_counterexample:
  "f_type (exampleField ''home'' ''address'' []) \<notin> set sqlDataTypes_model \<and>
   getTypeString sqlDataTypes_model (exampleField ''home'' ''address'' []) Mssql False = ''address'' \<and>
   getTypeString sqlDataTypes_model (exampleField ''home'' ''address'' []) Mssql False \<noteq> ''NVARCHAR(MAX)''"
  by (simp add: exampleField_def sqlDataTypes_model_def getTypeString_def isSized_def)

text \<open>
  C4, amended: for a field whose type is outside the vocabulary, and is none of the names
  the mapping compares with, the mapping is \<open>JSON\<close> for MySQL and MariaDB (which both call
  \<open>getTypeString\<close> with its default dialect), \<open>BLOB\<close> for SQLite, and the type name itself
  for SQL Server. The mapping functions are total: nothing is raised.
\<close>

theorem unrecognized_type_fallback:
  assumes "f_type f \<notin> set sqlDataTypes" and "f_type f \<notin> set mappedTypeNames"
  shows "getTypeString sqlDataTypes f Mysql baseType = ''JSON'' \<and>
         getSQLiteType f = ''BLOB'' \<and>
         getTypeString sqlDataTypes f Mssql baseType = f_type f"
  using assms
  by (simp add: mappedTypeNames_def getTypeString_def getSQLiteType_def isSized_def
      hasPrecision_def)

theorem unrecognized_type_fallback_witness:
  "getTypeString sqlDataTypes_model (exampleField ''home'' ''address'' []) Mysql False = ''JSON'' \<and>
   getSQLiteType (exampleField ''home'' ''address'' []) = ''BLOB'' \<and>
   getTypeString sqlDataTypes_model (exampleField ''home'' ''address'' []) Mssql False = ''address''"
  using unrecognized_type_fallback[of "exampleField ''home'' ''address'' []" sqlDataTypes_model False]
  by (simp add: exampleField_def sqlDataTypes_model_def mappedTypeNames_def)

section \<open>The structured-type schema emitter\<close>

lemma getJsonType_unrecognized:
  \<open>f_type f \<notin> set sqlDataTypes \<Longrightarrow>
   getJsonType sqlDataTypes f = ''{ "type" : "object", additionalProperties : true }''\<close>
  by (simp add: getJsonType_def)

text \<open>
  C6: for a type with the one field \<open>home\<close> of the unrecognized type \<open>address\<close>,
  \<open>generateSchema\<close> gives \<open>"type": "object"\<close> and \<open>"additionalProperties": false\<close> at top
  level, and the property of the field is
  \<^verbatim>\<open>{ "type" : "object", additionalProperties : true }\<close>: the key \<open>additionalProperties\<close>
  has no quotes, so the fragment is not the JSON object of the claim. The case \<open>JSON\<close> of
  the same function writes the key with its quotes.
\<close>

theorem generateSchema_unrecognized_field:
  \<open>generateSchema sqlDataTypes_model (exampleType ''person'' [exampleField ''home'' ''address'' []]) =
     ''{'' @ nl @ tab3 @ ''"$schema": "http://json-schema.org/draft-04/schema#",'' @ nl @ tab3 @
     ''"type": "object",'' @ nl @ tab3 @ ''"properties": {'' @ nl @ tab4 @
     ''"home" : { "type" : "object", additionalProperties : true }'' @
     nl @ tab3 @ ''},'' @ nl @ tab3 @ ''"additionalProperties": false'' @ nl @ tab2 @ ''}'' \<and>
   getJsonType sqlDataTypes_model (exampleField ''home'' ''address'' []) \<noteq>
     getJsonType sqlDataTypes_model (exampleField ''home'' ''JSON'' []) \<and>
   getJsonType sqlDataTypes_model (exampleField ''home'' ''JSON'' []) =
     ''{ "type" : "object", "additionalProperties" : true }''\<close>
  by (simp add: generateSchema_def getJsonType_def exampleType_def exampleField_def
      sqlDataTypes_model_def)

section \<open>SQL Server: the base type of a type\<close>

text \<open>
  C10: the guard \<open>type.fields.length < 0\<close> never holds, so the base type of every
  \<open>CREATE TYPE\<close> is the mapping of \<open>type.fields[0]\<close> and of no other field. With at least
  one field the access is in range and the statement is produced; with no field
  \<open>type.fields[0]\<close> is out of range, \<open>sqlserverType\<close> throws, and so does the compiler
  for a diagram with such a type.
\<close>

theorem sqlserver_base_type_from_first_field:
  "\<not> int (length (ty_fields type)) < 0 \<and>
   (\<forall>f fs. ty_fields type = f # fs \<longrightarrow>
      sqlserverType sqlDataTypes type =
        Some ((if ty_comment type = [] then [] else ''/**'' @ nl @ ty_comment type @ nl @ ''*/'' @ nl) @
              ''CREATE TYPE ['' @ ty_name type @ ''] FROM '' @
              getTypeString sqlDataTypes f Mssql True @ '';'' @ nl @ ''GO'' @ nl)) \<and>
   (ty_fields type = [] \<longrightarrow>
      at (ty_fields type) 0 = None \<and> sqlserverType sqlDataTypes type = None \<and>
      (type \<in> set (types obj) \<longrightarrow> jsonToSQLServer sqlDataTypes obj = None))"
proof (intro conjI allI impI)
  show "\<not> int (length (ty_fields type)) < 0" by simp
next
  fix f fs assume "ty_fields type = f # fs"
  then show "sqlserverType sqlDataTypes type =
        Some ((if ty_comment type = [] then [] else ''/**'' @ nl @ ty_comment type @ nl @ ''*/'' @ nl) @
              ''CREATE TYPE ['' @ ty_name type @ ''] FROM '' @
              getTypeString sqlDataTypes f Mssql True @ '';'' @ nl @ ''GO'' @ nl)"
    by (simp add: sqlserverType_def at_def)
next
  assume e: "ty_fields type = []"
  then show "at (ty_fields type) 0 = None" by (simp add: at_def)
  from e show n: "sqlserverType sqlDataTypes type = None" by (simp add: sqlserverType_def at_def)
  assume "type \<in> set (types obj)"
  then have "mapM (sqlserverType sqlDataTypes) (types obj) = None"
    using n by (rule mapM_None)
  then show "jsonToSQLServer sqlDataTypes obj = None" by (simp add: jsonToSQLServer_def)
qed

theorem sqlserver_base_type_from_first_field_witness:
  "sqlserverType sqlDataTypes_model
     (exampleType ''code'' [exampleField ''a'' ''VARCHAR'' [], exampleField ''b'' ''INT'' []]) =
     Some (''CREATE TYPE [code] FROM NVARCHAR();'' @ nl @ ''GO'' @ nl) \<and>
   sqlserverType sqlDataTypes_model (exampleType ''code'' []) = None \<and>
   jsonToSQLServer sqlDataTypes_model
     \<lparr>tables = [], references = [], types = [exampleType ''code'' []]\<rparr> = None"
  using sqlserver_base_type_from_first_field[of
      "exampleType ''code'' [exampleField ''a'' ''VARCHAR'' [], exampleField ''b'' ''INT'' []]"
      sqlDataTypes_model]
    sqlserver_base_type_from_first_field[of "exampleType ''code'' []" sqlDataTypes_model
      "\<lparr>tables = [], references = [], types = [exampleType ''code'' []]\<rparr>"]
  by (simp add: exampleType_def exampleField_def getTypeString_def isSized_def)
section \<open>The statement of a table in the output of a compiler\<close>

text \<open>
  Every compiler joins the statements of the tables, so the statement of each table of
  the diagram is a contiguous part of the output.
\<close>

lemma mysql_table_in_output:
  assumes "jsonToMySQL S obj = Some out" and "t \<in> set (tables obj)"
  shows "\<exists>s. mysqlTable S obj t = Some s \<and> sublist s out"
proof -
  from assms(1) obtain ts rs where ts: "mapM (mysqlTable S obj) (tables obj) = Some ts"
    and out: "out = join nl ts @ nl @ join nl rs"
    by (auto simp: jsonToMySQL_def split: Option.bind_splits)
  from mapM_member[OF ts assms(2)] obtain s where s: "mysqlTable S obj t = Some s" "s \<in> set ts"
    by blast
  then have "sublist s (join nl ts)" by (simp add: sublist_join)
  then have "sublist s out" unfolding out by (rule sublist_in_append_left)
  with s show ?thesis by blast
qed

lemma mariadb_table_in_output:
  assumes "jsonToMariaDB S obj = Some out" and "t \<in> set (tables obj)"
  shows "\<exists>s. mariadbTable S obj t = Some s \<and> sublist s out"
proof -
  from assms(1) obtain ts rs where ts: "mapM (mariadbTable S obj) (tables obj) = Some ts"
    and out: "out = join nl ts @ nl @ join nl rs"
    by (auto simp: jsonToMariaDB_def split: Option.bind_splits)
  from mapM_member[OF ts assms(2)] obtain s where s: "mariadbTable S obj t = Some s" "s \<in> set ts"
    by blast
  then have "sublist s (join nl ts)" by (simp add: sublist_join)
  then have "sublist s out" unfolding out by (rule sublist_in_append_left)
  with s show ?thesis by blast
qed

lemma sqlite_table_in_output:
  assumes "jsonToSQLite obj = Some out" and "t \<in> set (tables obj)"
  shows "\<exists>s. sqliteTable obj t = Some s \<and> sublist s out"
proof -
  from assms(1) obtain ts where ts: "mapM (sqliteTable obj) (tables obj) = Some ts"
    and out: "out = join nl ts"
    by (auto simp: jsonToSQLite_def split: Option.bind_splits)
  from mapM_member[OF ts assms(2)] obtain s where s: "sqliteTable obj t = Some s" "s \<in> set ts"
    by blast
  then have "sublist s out" unfolding out by (simp add: sublist_join)
  with s show ?thesis by blast
qed

lemma postgres_table_in_output:
  assumes "jsonToPostgreSQL S obj = Some out" and "t \<in> set (tables obj)"
  shows "sublist (postgresTable S t) out"
proof -
  from assms(1) obtain rs where
    out: "out = arrayToString (map (postgresType S) (types obj)) @ nl @
            join nl (map (postgresTable S) (tables obj)) @ nl @ join nl rs"
    by (auto simp: jsonToPostgreSQL_def split: Option.bind_splits)
  have "sublist (postgresTable S t) (join nl (map (postgresTable S) (tables obj)))"
    using assms(2) by (simp add: sublist_join)
  then show ?thesis unfolding out
    by (intro sublist_in_append_right sublist_in_append_left)
qed

lemma sqlserver_table_in_output:
  assumes "jsonToSQLServer S obj = Some out" and "t \<in> set (tables obj)"
  shows "sublist (sqlserverTable S t) out"
proof -
  from assms(1) obtain tys rs where
    out: "out = join nl tys @ nl @ join nl (map (sqlserverTable S) (tables obj)) @ nl @ join nl rs"
    by (auto simp: jsonToSQLServer_def split: Option.bind_splits)
  have "sublist (sqlserverTable S t) (join nl (map (sqlserverTable S) (tables obj)))"
    using assms(2) by (simp add: sublist_join)
  then show ?thesis unfolding out
    by (intro sublist_in_append_right sublist_in_append_left)
qed

section \<open>The separator of the index statements\<close>

lemma mysql_table_indices:
  assumes "mysqlTable S obj t = Some s" and "t_indices t = pre @ i1 # i2 # post"
  shows "sublist (mysqlIndex t i1 @ '','' @ mysqlIndex t i2) s"
proof -
  from assms(1) obtain a where
    s: "s = a @ nl @ arrayToString (map (mysqlIndex t) (t_indices t))"
    using assms(2) by (auto simp: mysqlTable_def split: Option.bind_splits)
  have "sublist (mysqlIndex t i1 @ '','' @ mysqlIndex t i2)
          (arrayToString (map (mysqlIndex t) (t_indices t)))"
    unfolding arrayToString_def assms(2) map_append list.map by (rule sublist_join_pair)
  then show ?thesis unfolding s
    by (intro sublist_in_append_right)
qed

lemma mariadb_table_indices:
  assumes "mariadbTable S obj t = Some s" and "t_indices t = pre @ i1 # i2 # post"
  shows "sublist (mariadbIndex t i1 @ '','' @ mariadbIndex t i2) s"
proof -
  from assms(1) obtain a where
    s: "s = a @ nl @ arrayToString (map (mariadbIndex t) (t_indices t))"
    using assms(2) by (auto simp: mariadbTable_def split: Option.bind_splits)
  have "sublist (mariadbIndex t i1 @ '','' @ mariadbIndex t i2)
          (arrayToString (map (mariadbIndex t) (t_indices t)))"
    unfolding arrayToString_def assms(2) map_append list.map by (rule sublist_join_pair)
  then show ?thesis unfolding s
    by (intro sublist_in_append_right)
qed

lemma postgres_table_indices:
  assumes "t_indices t = pre @ i1 # i2 # post"
  shows "sublist (postgresIndex t i1 @ '','' @ postgresIndex t i2) (postgresTable S t)"
proof -
  obtain a where
    s: "postgresTable S t = a @ arrayToString (map (postgresIndex t) (t_indices t))"
    using assms by (simp add: postgresTable_def)
  have "sublist (postgresIndex t i1 @ '','' @ postgresIndex t i2)
          (arrayToString (map (postgresIndex t) (t_indices t)))"
    unfolding arrayToString_def assms map_append list.map by (rule sublist_join_pair)
  then show ?thesis unfolding s
    by (intro sublist_in_append_right)
qed

lemma sqlserver_table_indices:
  assumes "t_indices t = pre @ i1 # i2 # post"
  shows "sublist (sqlserverIndex t i1 @ '','' @ sqlserverIndex t i2) (sqlserverTable S t)"
proof -
  obtain a where
    s: "sqlserverTable S t = a @ arrayToString (map (sqlserverIndex t) (t_indices t))"
    using assms by (simp add: sqlserverTable_def)
  have "sublist (sqlserverIndex t i1 @ '','' @ sqlserverIndex t i2)
          (arrayToString (map (sqlserverIndex t) (t_indices t)))"
    unfolding arrayToString_def assms map_append list.map by (rule sublist_join_pair)
  then show ?thesis unfolding s
    by (intro sublist_in_append_right)
qed

lemma sqlite_table_indices:
  assumes "sqliteTable obj t = Some s" and "t_indices t = pre @ i1 # i2 # post"
  shows "sublist (sqliteIndex t i1 @ nl @ sqliteIndex t i2) s"
proof -
  from assms(1) obtain a where
    s: "s = a @ join nl (map (sqliteIndex t) (t_indices t))"
    using assms(2) by (auto simp: sqliteTable_def split: Option.bind_splits)
  have "sublist (sqliteIndex t i1 @ nl @ sqliteIndex t i2)
          (join nl (map (sqliteIndex t) (t_indices t)))"
    unfolding assms(2) map_append list.map by (rule sublist_join_pair)
  then show ?thesis unfolding s
    by (intro sublist_in_append_right)
qed

text \<open>
  C8: for two consecutive indices \<open>i1\<close>, \<open>i2\<close> of a table of the diagram, the output of
  the MySQL, PostgreSQL, MariaDB and SQL Server compilers contains the statement of \<open>i1\<close>,
  a comma, and the statement of \<open>i2\<close>, the array of statements being converted to a
  string with no \<open>join\<close>; the output of the SQLite compiler contains the two statements
  with a newline and no comma between them.
\<close>

theorem index_statements_separator:
  assumes "t \<in> set (tables obj)" and "t_indices t = pre @ i1 # i2 # post"
  shows "(jsonToMySQL S obj = Some out \<longrightarrow>
            sublist (mysqlIndex t i1 @ '','' @ mysqlIndex t i2) out) \<and>
         (jsonToPostgreSQL S obj = Some out \<longrightarrow>
            sublist (postgresIndex t i1 @ '','' @ postgresIndex t i2) out) \<and>
         (jsonToMariaDB S obj = Some out \<longrightarrow>
            sublist (mariadbIndex t i1 @ '','' @ mariadbIndex t i2) out) \<and>
         (jsonToSQLServer S obj = Some out \<longrightarrow>
            sublist (sqlserverIndex t i1 @ '','' @ sqlserverIndex t i2) out) \<and>
         (jsonToSQLite obj = Some out \<longrightarrow>
            sublist (sqliteIndex t i1 @ nl @ sqliteIndex t i2) out)"
proof (intro conjI impI)
  assume "jsonToMySQL S obj = Some out"
  then obtain s where "mysqlTable S obj t = Some s" "sublist s out"
    using mysql_table_in_output assms(1) by blast
  then show "sublist (mysqlIndex t i1 @ '','' @ mysqlIndex t i2) out"
    using mysql_table_indices[OF _ assms(2)] sublist_trans by blast
next
  assume "jsonToPostgreSQL S obj = Some out"
  then have "sublist (postgresTable S t) out"
    using postgres_table_in_output assms(1) by blast
  then show "sublist (postgresIndex t i1 @ '','' @ postgresIndex t i2) out"
    using postgres_table_indices[OF assms(2)] sublist_trans by blast
next
  assume "jsonToMariaDB S obj = Some out"
  then obtain s where "mariadbTable S obj t = Some s" "sublist s out"
    using mariadb_table_in_output assms(1) by blast
  then show "sublist (mariadbIndex t i1 @ '','' @ mariadbIndex t i2) out"
    using mariadb_table_indices[OF _ assms(2)] sublist_trans by blast
next
  assume "jsonToSQLServer S obj = Some out"
  then have "sublist (sqlserverTable S t) out"
    using sqlserver_table_in_output assms(1) by blast
  then show "sublist (sqlserverIndex t i1 @ '','' @ sqlserverIndex t i2) out"
    using sqlserver_table_indices[OF assms(2)] sublist_trans by blast
next
  assume "jsonToSQLite obj = Some out"
  then obtain s where "sqliteTable obj t = Some s" "sublist s out"
    using sqlite_table_in_output assms(1) by blast
  then show "sublist (sqliteIndex t i1 @ nl @ sqliteIndex t i2) out"
    using sqlite_table_indices[OF _ assms(2)] sublist_trans by blast
qed

lemma indexedDiagram_compiles:
  "jsonToMySQL sqlDataTypes_model indexedDiagram \<noteq> None"
  "jsonToPostgreSQL sqlDataTypes_model indexedDiagram \<noteq> None"
  "jsonToMariaDB sqlDataTypes_model indexedDiagram \<noteq> None"
  "jsonToSQLServer sqlDataTypes_model indexedDiagram \<noteq> None"
  "jsonToSQLite indexedDiagram \<noteq> None"
  by (simp_all add: jsonToMySQL_def jsonToPostgreSQL_def jsonToMariaDB_def jsonToSQLServer_def
      jsonToSQLite_def indexedDiagram_def indexedTable_def mysqlTable_def mariadbTable_def
      sqliteTable_def mysqlField_def mariadbField_def exampleField_def sqlDataTypes_model_def
      getInlineFK_def hasCheck_def)

theorem index_statements_separator_witness:
  "(\<exists>out. jsonToMySQL sqlDataTypes_model indexedDiagram = Some out \<and>
      sublist (mysqlIndex indexedTable (exampleIndex ''ix'') @ '','' @
               mysqlIndex indexedTable (exampleIndex ''iy'')) out) \<and>
   (\<exists>out. jsonToPostgreSQL sqlDataTypes_model indexedDiagram = Some out \<and>
      sublist (postgresIndex indexedTable (exampleIndex ''ix'') @ '','' @
               postgresIndex indexedTable (exampleIndex ''iy'')) out) \<and>
   (\<exists>out. jsonToMariaDB sqlDataTypes_model indexedDiagram = Some out \<and>
      sublist (mariadbIndex indexedTable (exampleIndex ''ix'') @ '','' @
               mariadbIndex indexedTable (exampleIndex ''iy'')) out) \<and>
   (\<exists>out. jsonToSQLServer sqlDataTypes_model indexedDiagram = Some out \<and>
      sublist (sqlserverIndex indexedTable (exampleIndex ''ix'') @ '','' @
               sqlserverIndex indexedTable (exampleIndex ''iy'')) out) \<and>
   (\<exists>out. jsonToSQLite indexedDiagram = Some out \<and>
      sublist (sqliteIndex indexedTable (exampleIndex ''ix'') @ nl @
               sqliteIndex indexedTable (exampleIndex ''iy'')) out)"
proof -
  have t: "indexedTable \<in> set (tables indexedDiagram)"
    by (simp add: indexedDiagram_def)
  have i: "t_indices indexedTable = [] @ exampleIndex ''ix'' # exampleIndex ''iy'' # []"
    by (simp add: indexedTable_def)
  note sep = index_statements_separator[OF t i]
  show ?thesis
    using indexedDiagram_compiles sep by (simp only: not_None_eq) blast
qed

section \<open>Finding a text inside a template\<close>

lemma sublistE:
  assumes "sublist xs ys"
  obtains ps ss where "ys = ps @ xs @ ss"
  using assms by (auto simp: sublist_def)

lemma sublist_ConsI: "sublist xs ys \<Longrightarrow> sublist xs (y # ys)"
  by (simp add: sublist_Cons_right)

lemma sublist_here: "prefix xs ys \<Longrightarrow> sublist xs ys"
  by (auto simp: prefix_def)

lemmas sublist_search = sublist_here sublist_ConsI sublist_in_append_right sublist_in_append_left

section \<open>Enumerated fields\<close>

lemma mysql_enum_type:
  "f_type f = ''ENUM'' \<Longrightarrow>
   getTypeString S f Mysql False =
     ''ENUM('' @ join '', '' (map (\<lambda>v. dq @ v @ dq) (f_values f)) @ '')''"
  by (simp add: getTypeString_def hasPrecision_def isSized_def)

lemma mysqlField_enum:
  assumes "mysqlField S obj f = Some line" and "f_type f = ''ENUM''"
  shows "sublist (''`'' @ f_name f @ ''` ENUM('' @
                  join '', '' (map (\<lambda>v. dq @ v @ dq) (f_values f)) @ '')'') line"
  using assms(1)
  by (auto simp: mysqlField_def mysql_enum_type[OF assms(2)] sublist_search
      split: Option.bind_splits)

lemma mysqlTable_field:
  assumes "mysqlTable S obj t = Some s" and "f \<in> set (t_fields t)"
  shows "\<exists>line. mysqlField S obj f = Some line \<and> sublist line s"
proof -
  from assms(1) obtain lines where
    l: "mapM (mysqlField S obj) (t_fields t) = Some lines" and
    s: "sublist (join ('','' @ nl) lines) s"
    by (auto simp: mysqlTable_def sublist_search split: Option.bind_splits)
  from mapM_member[OF l assms(2)] obtain line where
    line: "mysqlField S obj f = Some line" "line \<in> set lines"
    by blast
  then have "sublist line (join ('','' @ nl) lines)" by (simp add: sublist_join)
  then have "sublist line s" using s by (rule sublist_trans)
  with line show ?thesis by blast
qed

lemma mariadbField_enum:
  assumes "mariadbField S obj f = Some line" and "f_type f = ''ENUM''"
  shows "sublist (''`'' @ f_name f @ ''` ENUM('' @
                  join '', '' (map (\<lambda>v. dq @ v @ dq) (f_values f)) @ '')'') line"
  using assms(1)
  by (auto simp: mariadbField_def mysql_enum_type[OF assms(2)] sublist_search
      split: Option.bind_splits)

lemma mariadbTable_field:
  assumes "mariadbTable S obj t = Some s" and "f \<in> set (t_fields t)"
  shows "\<exists>line. mariadbField S obj f = Some line \<and> sublist line s"
proof -
  from assms(1) obtain lines where
    l: "mapM (mariadbField S obj) (t_fields t) = Some lines" and
    s: "sublist (join ('','' @ nl) lines) s"
    by (auto simp: mariadbTable_def sublist_search split: Option.bind_splits)
  from mapM_member[OF l assms(2)] obtain line where
    line: "mariadbField S obj f = Some line" "line \<in> set lines"
    by blast
  then have "sublist line (join ('','' @ nl) lines)" by (simp add: sublist_join)
  then have "sublist line s" using s by (rule sublist_trans)
  with line show ?thesis by blast
qed

lemma sqliteField_enum:
  assumes "f_type f = ''ENUM''"
  shows \<open>sublist (''"'' @ f_name f @ ''" TEXT CHECK("'' @ f_name f @ ''" in ('' @
                  join '', '' (map (\<lambda>v. sq @ v @ sq) (f_values f)) @ ''))'') (sqliteField f)\<close>
proof -
  have ty: \<open>getSQLiteType f = ''TEXT CHECK("'' @ f_name f @ ''" in ('' @
      join '', '' (map (\<lambda>v. sq @ v @ sq) (f_values f)) @ ''))''\<close>
    using assms by (simp add: getSQLiteType_def)
  show ?thesis
    by (simp add: sqliteField_def ty sublist_search)
qed

lemma sqliteTable_field:
  assumes "sqliteTable obj t = Some s" and "f \<in> set (t_fields t)"
  shows "sublist (sqliteField f) s"
proof -
  from assms(1) have s: "sublist (join ('','' @ nl) (map sqliteField (t_fields t))) s"
    by (auto simp: sqliteTable_def sublist_search split: Option.bind_splits)
  have "sublist (sqliteField f) (join ('','' @ nl) (map sqliteField (t_fields t)))"
    using assms(2) by (simp add: sublist_join)
  then show ?thesis using s by (rule sublist_trans)
qed

lemma postgresTable_enum:
  assumes "f \<in> set (t_fields t)" and "f_type f = ''ENUM''"
  obtains a b c d where \<open>postgresTable S t =
            a @ (''CREATE TYPE "'' @ f_name f @ ''_t" AS ENUM ('' @
                 join '', '' (map (\<lambda>v. sq @ v @ sq) (f_values f)) @ '');'') @
            b @ (''CREATE TABLE "'' @ t_name t @ ''" ('') @
            c @ (''"'' @ f_name f @ ''" '' @ f_name f @ ''_t'') @ d\<close>
proof -
  let ?P = "\<lambda>f. f_type f = ''ENUM'' \<or> f_type f = ''SET''"
  let ?types = "arrayToString (map (postgresEnumType (nl @ nl)) (filter ?P (t_fields t)))"
  let ?lines = "join ('','' @ nl) (map (postgresField S) (t_fields t))"
  let ?h = "if t_comment t = [] then [] else ''/**'' @ nl @ t_comment t @ nl @ ''*/'' @ nl"
  let ?r = \<open>(if length (filter f_primary (t_fields t)) > 0
      then '','' @ nl @ tab @ ''PRIMARY KEY('' @
           join '', '' (map (\<lambda>f. ''"'' @ f_name f @ ''"'') (filter f_primary (t_fields t))) @
           '')''
      else []) @
     nl @ '');'' @ nl @
     (if length (t_indices t) > 0
      then arrayToString (map (postgresIndex t) (t_indices t))
      else [])\<close>
  have mem: "f \<in> set (filter ?P (t_fields t))"
    using assms by simp
  then have ne: "length (filter ?P (t_fields t)) > 0"
    by (rule length_pos_if_in_set)
  have "sublist (postgresEnumType (nl @ nl) f) ?types"
    unfolding arrayToString_def using mem by (intro sublist_join) simp
  then obtain x y where x: "?types = x @ postgresEnumType (nl @ nl) f @ y"
    by (rule sublistE)
  have "sublist (postgresField S f) ?lines"
    using assms(1) by (intro sublist_join) simp
  then obtain u v where u: "?lines = u @ postgresField S f @ v"
    by (rule sublistE)
  have ty: "getTypeString S f Postgres False = f_name f @ ''_t''"
    using assms(2) by (simp add: getTypeString_def)
  let ?p = "(if f_comment f = [] then [] else tab @ ''-- '' @ f_comment f @ nl) @ tab"
  let ?q = "(if f_notNull f then '' NOT NULL'' else []) @
     (if f_default f \<noteq> [] then '' DEFAULT '' @ parseDefault f else []) @
     (if f_check f = [] \<or> \<not> hasCheck (f_type f) then []
      else '' CHECK('' @ f_check f @ '')'')"
  have f: \<open>postgresField S f = ?p @ (''"'' @ f_name f @ ''" '' @ f_name f @ ''_t'') @ ?q\<close>
    by (simp add: postgresField_def ty)
  have t: \<open>postgresTable S t =
      ?h @ ?types @ (''CREATE TABLE "'' @ t_name t @ ''" ('') @ nl @ ?lines @ ?r\<close>
    using ne by (simp add: postgresTable_def)
  have \<open>postgresTable S t =
      (?h @ x) @ (''CREATE TYPE "'' @ f_name f @ ''_t" AS ENUM ('' @
                 join '', '' (map (\<lambda>v. sq @ v @ sq) (f_values f)) @ '');'') @
      (nl @ nl @ y) @ (''CREATE TABLE "'' @ t_name t @ ''" ('') @
      (nl @ u @ ?p) @ (''"'' @ f_name f @ ''" '' @ f_name f @ ''_t'') @ (?q @ v @ ?r)\<close>
    unfolding t x u f by (simp add: postgresEnumType_def)
  then show ?thesis by (rule that)
qed

text \<open>
  C2: for a field \<open>f\<close> of type \<open>ENUM\<close> in a table \<open>t\<close> of the diagram, the MySQL and the
  MariaDB output contain the column \<open>f\<close> with the type \<open>ENUM(...)\<close> over the values of
  \<open>f\<close> in their order; the SQLite output contains the column with
  \<open>TEXT CHECK("f" in (...))\<close> over the same values in the same order (the keyword
  \<open>in\<close> is written in lower case); and the PostgreSQL output contains the statement
  \<open>CREATE TYPE "f_t" AS ENUM (...)\<close>, after it the opening of the \<open>CREATE TABLE\<close> of
  \<open>t\<close>, and after that the column \<open>f\<close> with the type \<open>f_t\<close>.
\<close>

theorem enum_fields_in_output:
  assumes "t \<in> set (tables obj)" and "f \<in> set (t_fields t)" and "f_type f = ''ENUM''"
  shows \<open>(jsonToMySQL S obj = Some out \<longrightarrow>
            sublist (''`'' @ f_name f @ ''` ENUM('' @
                     join '', '' (map (\<lambda>v. dq @ v @ dq) (f_values f)) @ '')'') out) \<and>
         (jsonToMariaDB S obj = Some out \<longrightarrow>
            sublist (''`'' @ f_name f @ ''` ENUM('' @
                     join '', '' (map (\<lambda>v. dq @ v @ dq) (f_values f)) @ '')'') out) \<and>
         (jsonToSQLite obj = Some out \<longrightarrow>
            sublist (''"'' @ f_name f @ ''" TEXT CHECK("'' @ f_name f @ ''" in ('' @
                     join '', '' (map (\<lambda>v. sq @ v @ sq) (f_values f)) @ ''))'') out) \<and>
         (jsonToPostgreSQL S obj = Some out \<longrightarrow>
            (\<exists>a b c d. out =
               a @ (''CREATE TYPE "'' @ f_name f @ ''_t" AS ENUM ('' @
                    join '', '' (map (\<lambda>v. sq @ v @ sq) (f_values f)) @ '');'') @
               b @ (''CREATE TABLE "'' @ t_name t @ ''" ('') @
               c @ (''"'' @ f_name f @ ''" '' @ f_name f @ ''_t'') @ d))\<close>
proof (intro conjI impI)
  assume c: "jsonToMySQL S obj = Some out"
  from mysql_table_in_output[OF c assms(1)] obtain s where
    s: "mysqlTable S obj t = Some s" "sublist s out"
    by blast
  from mysqlTable_field[OF s(1) assms(2)] obtain line where
    l: "mysqlField S obj f = Some line" "sublist line s"
    by blast
  from sublist_trans[OF sublist_trans[OF mysqlField_enum[OF l(1) assms(3)] l(2)] s(2)]
  show "sublist (''`'' @ f_name f @ ''` ENUM('' @
      join '', '' (map (\<lambda>v. dq @ v @ dq) (f_values f)) @ '')'') out"
    .
next
  assume c: "jsonToMariaDB S obj = Some out"
  from mariadb_table_in_output[OF c assms(1)] obtain s where
    s: "mariadbTable S obj t = Some s" "sublist s out"
    by blast
  from mariadbTable_field[OF s(1) assms(2)] obtain line where
    l: "mariadbField S obj f = Some line" "sublist line s"
    by blast
  from sublist_trans[OF sublist_trans[OF mariadbField_enum[OF l(1) assms(3)] l(2)] s(2)]
  show "sublist (''`'' @ f_name f @ ''` ENUM('' @
      join '', '' (map (\<lambda>v. dq @ v @ dq) (f_values f)) @ '')'') out"
    .
next
  assume c: "jsonToSQLite obj = Some out"
  from sqlite_table_in_output[OF c assms(1)] obtain s where
    s: "sqliteTable obj t = Some s" "sublist s out"
    by blast
  from sublist_trans[OF sublist_trans[OF sqliteField_enum[OF assms(3)]
        sqliteTable_field[OF s(1) assms(2)]] s(2)]
  show \<open>sublist (''"'' @ f_name f @ ''" TEXT CHECK("'' @ f_name f @ ''" in ('' @
      join '', '' (map (\<lambda>v. sq @ v @ sq) (f_values f)) @ ''))'') out\<close>
    .
next
  assume c: "jsonToPostgreSQL S obj = Some out"
  from postgres_table_in_output[OF c assms(1)] obtain p q where
    out: "out = p @ postgresTable S t @ q"
    by (rule sublistE)
  from assms(2,3) obtain a b c d where
    t: \<open>postgresTable S t =
        a @ (''CREATE TYPE "'' @ f_name f @ ''_t" AS ENUM ('' @
             join '', '' (map (\<lambda>v. sq @ v @ sq) (f_values f)) @ '');'') @
        b @ (''CREATE TABLE "'' @ t_name t @ ''" ('') @
        c @ (''"'' @ f_name f @ ''" '' @ f_name f @ ''_t'') @ d\<close>
    by (rule postgresTable_enum)
  have \<open>out = (p @ a) @ (''CREATE TYPE "'' @ f_name f @ ''_t" AS ENUM ('' @
             join '', '' (map (\<lambda>v. sq @ v @ sq) (f_values f)) @ '');'') @
        b @ (''CREATE TABLE "'' @ t_name t @ ''" ('') @
        c @ (''"'' @ f_name f @ ''" '' @ f_name f @ ''_t'') @ (d @ q)\<close>
    unfolding out t by simp
  then show \<open>\<exists>a b c d. out =
               a @ (''CREATE TYPE "'' @ f_name f @ ''_t" AS ENUM ('' @
                    join '', '' (map (\<lambda>v. sq @ v @ sq) (f_values f)) @ '');'') @
               b @ (''CREATE TABLE "'' @ t_name t @ ''" ('') @
               c @ (''"'' @ f_name f @ ''" '' @ f_name f @ ''_t'') @ d\<close>
    by (intro exI)
qed

lemma usersDiagram_compiles:
  "jsonToMySQL sqlDataTypes_model usersDiagram \<noteq> None"
  "jsonToPostgreSQL sqlDataTypes_model usersDiagram \<noteq> None"
  "jsonToMariaDB sqlDataTypes_model usersDiagram \<noteq> None"
  "jsonToSQLServer sqlDataTypes_model usersDiagram \<noteq> None"
  "jsonToSQLite usersDiagram \<noteq> None"
  by (simp_all add: jsonToMySQL_def jsonToPostgreSQL_def jsonToMariaDB_def jsonToSQLServer_def
      jsonToSQLite_def usersDiagram_def usersTable_def mysqlTable_def mariadbTable_def
      sqliteTable_def mysqlField_def mariadbField_def exampleField_def sqlDataTypes_model_def
      getInlineFK_def hasCheck_def)

theorem enum_fields_in_output_witness:
  \<open>(\<exists>out. jsonToMySQL sqlDataTypes_model usersDiagram = Some out \<and>
      sublist ''`status` ENUM("active", "banned")'' out) \<and>
   (\<exists>out. jsonToMariaDB sqlDataTypes_model usersDiagram = Some out \<and>
      sublist ''`status` ENUM("active", "banned")'' out) \<and>
   (\<exists>out. jsonToSQLite usersDiagram = Some out \<and>
      sublist (''"status" TEXT CHECK("status" in ('' @ sq @ ''active'' @ sq @ '', '' @
               sq @ ''banned'' @ sq @ ''))'') out) \<and>
   (\<exists>out a b c d. jsonToPostgreSQL sqlDataTypes_model usersDiagram = Some out \<and>
      out = a @ (''CREATE TYPE "status_t" AS ENUM ('' @ sq @ ''active'' @ sq @ '', '' @
                 sq @ ''banned'' @ sq @ '');'') @
            b @ ''CREATE TABLE "users" ('' @ c @ ''"status" status_t'' @ d)\<close>
proof -
  let ?f = "(exampleField ''status'' ''ENUM'' [])\<lparr>f_values := [''active'', ''banned'']\<rparr>"
  have t: "usersTable \<in> set (tables usersDiagram)"
    by (simp add: usersDiagram_def)
  have f: "?f \<in> set (t_fields usersTable)"
    by (simp add: usersTable_def)
  have e: "f_type ?f = ''ENUM''"
    by (simp add: exampleField_def)
  have n: "f_name ?f = ''status''" "f_values ?f = [''active'', ''banned'']"
      "t_name usersTable = ''users''"
    by (simp_all add: exampleField_def usersTable_def)
  note enum = enum_fields_in_output[OF t f e, unfolded n, simplified]
  obtain o1 o2 o3 o4 where o:
    "jsonToMySQL sqlDataTypes_model usersDiagram = Some o1"
    "jsonToMariaDB sqlDataTypes_model usersDiagram = Some o2"
    "jsonToSQLite usersDiagram = Some o3"
    "jsonToPostgreSQL sqlDataTypes_model usersDiagram = Some o4"
    using usersDiagram_compiles by (simp only: not_None_eq) (elim exE)
  from enum[of sqlDataTypes_model o1] enum[of sqlDataTypes_model o2]
    enum[of _ o3] enum[of sqlDataTypes_model o4] o
  show ?thesis by simp
qed

section \<open>Primary keys\<close>

























section \<open>SQLite: the inline foreign key\<close>

lemma getInlineFK_loop_set: "fk \<noteq> [] \<Longrightarrow> getInlineFK_loop t obj rs fk = Some fk"
  by (induction rs) simp_all

lemma getInlineFK_loop_find:
  "getInlineFK_loop t obj rs [] =
     (case find (\<lambda>r. startTableId r = t_id t) rs of
        None \<Rightarrow> Some []
      | Some r \<Rightarrow> inlineForeignKey t obj r)"
proof (induction rs)
  case Nil
  show ?case by simp
next
  case (Cons r rs)
  show ?case
  proof (cases "startTableId r = t_id t")
    case True
    then show ?thesis
      by (simp add: inlineForeignKey_def getInlineFK_loop_set cong: Option.bind_cong)
  next
    case False
    then show ?thesis using Cons.IH by simp
  qed
qed

lemma getInlineFK_find:
  "getInlineFK t obj =
     (case find (\<lambda>r. startTableId r = t_id t) (references obj) of
        None \<Rightarrow> Some []
      | Some r \<Rightarrow> inlineForeignKey t obj r)"
  by (simp add: getInlineFK_def getInlineFK_loop_find)

lemma inlineForeignKey_references:
  "inlineForeignKey t (obj\<lparr>references := rs\<rparr>) r = inlineForeignKey t obj r"
  by (simp add: inlineForeignKey_def)

lemma find_first_match: "P r \<Longrightarrow> find P (pre @ r # post) = find P (pre @ [r])"
  by (induction pre) auto

lemma sqliteTable_inline:
  assumes "sqliteTable obj t = Some s"
  obtains a b fk where
    "getInlineFK t obj = Some fk"
    \<open>prefix ((if t_comment t = [] then [] else ''/* '' @ t_comment t @ '' */'' @ nl) @
             ''CREATE TABLE IF NOT EXISTS "'' @ t_name t @ ''" ('') a\<close>
    "prefix (tab @ fk @ nl @ '');'') b"
    "s = a @ b"
proof -
  from assms obtain fk where fk: "getInlineFK t obj = Some fk"
    by (auto simp: sqliteTable_def split: Option.bind_splits)
  let ?a = \<open>((if t_comment t = [] then [] else ''/* '' @ t_comment t @ '' */'' @ nl) @
      ''CREATE TABLE IF NOT EXISTS "'' @ t_name t @ ''" ('') @ nl @
      join ('','' @ nl) (map sqliteField (t_fields t)) @
      (if length (filter f_primary (t_fields t)) > 0
       then '','' @ nl @ tab @ ''PRIMARY KEY('' @
            join '', '' (map (\<lambda>f. ''"'' @ f_name f @ ''"'') (filter f_primary (t_fields t))) @
            '')'' @ (if fk \<noteq> [] then '','' @ nl else [])
       else [])\<close>
  let ?b = \<open>(tab @ fk @ nl @ '');'') @ nl @
      (if length (t_indices t) > 0
       then join nl (map (sqliteIndex t) (t_indices t))
       else [])\<close>
  have 1: \<open>prefix ((if t_comment t = [] then [] else ''/* '' @ t_comment t @ '' */'' @ nl) @
             ''CREATE TABLE IF NOT EXISTS "'' @ t_name t @ ''" ('') ?a\<close>
    by (rule prefixI) (rule refl)
  have 2: "prefix (tab @ fk @ nl @ '');'') ?b"
    by (rule prefixI) (rule refl)
  have 3: "s = ?a @ ?b"
    using assms by (simp add: sqliteTable_def fk split del: if_split cong: if_cong)
  from fk 1 2 3 show ?thesis by (rule that)
qed

text \<open>
  C5: the SQLite output is the statements of the tables joined, with nothing after them
  for the references. The statement of a table \<open>t\<close> opens the \<open>CREATE TABLE\<close>, and ends
  its body with the result of \<open>getInlineFK\<close> before the closing parenthesis. That result
  is empty when no reference starts at \<open>t\<close>, and otherwise the clause of the first
  reference, in the order of the diagram, whose \<open>startTableId\<close> is the id of \<open>t\<close>: the
  references after such a reference \<open>r\<close> change nothing.
\<close>

theorem sqlite_inline_foreign_key:
  \<open>getInlineFK t obj =
     (case find (\<lambda>r. startTableId r = t_id t) (references obj) of
        None \<Rightarrow> Some []
      | Some r \<Rightarrow> inlineForeignKey t obj r) \<and>
   (startTableId r = t_id t \<longrightarrow>
      getInlineFK t (obj\<lparr>references := pre @ r # post\<rparr>) =
      getInlineFK t (obj\<lparr>references := pre @ [r]\<rparr>)) \<and>
   (jsonToSQLite obj = Some out \<longrightarrow>
      (\<exists>ts. mapM (sqliteTable obj) (tables obj) = Some ts \<and> out = join nl ts) \<and>
      (t \<in> set (tables obj) \<longrightarrow>
         (\<exists>s a b fk. sublist s out \<and> sqliteTable obj t = Some s \<and>
            getInlineFK t obj = Some fk \<and>
            prefix ((if t_comment t = [] then [] else ''/* '' @ t_comment t @ '' */'' @ nl) @
                    ''CREATE TABLE IF NOT EXISTS "'' @ t_name t @ ''" ('') a \<and>
            prefix (tab @ fk @ nl @ '');'') b \<and>
            s = a @ b)))\<close>
proof (intro conjI impI)
  show "getInlineFK t obj =
     (case find (\<lambda>r. startTableId r = t_id t) (references obj) of
        None \<Rightarrow> Some []
      | Some r \<Rightarrow> inlineForeignKey t obj r)"
    by (rule getInlineFK_find)
next
  assume "startTableId r = t_id t"
  then have "find (\<lambda>r. startTableId r = t_id t) (pre @ r # post) =
      find (\<lambda>r. startTableId r = t_id t) (pre @ [r])"
    by (rule find_first_match)
  then show "getInlineFK t (obj\<lparr>references := pre @ r # post\<rparr>) =
      getInlineFK t (obj\<lparr>references := pre @ [r]\<rparr>)"
    by (simp add: getInlineFK_find inlineForeignKey_references cong: option.case_cong)
next
  assume "jsonToSQLite obj = Some out"
  then show "\<exists>ts. mapM (sqliteTable obj) (tables obj) = Some ts \<and> out = join nl ts"
    by (auto simp: jsonToSQLite_def split: Option.bind_splits)
next
  assume c: "jsonToSQLite obj = Some out" and t: "t \<in> set (tables obj)"
  from sqlite_table_in_output[OF c t] obtain s where
    s: "sublist s out" "sqliteTable obj t = Some s"
    by blast
  from s(2) obtain a b fk where
    "getInlineFK t obj = Some fk"
    \<open>prefix ((if t_comment t = [] then [] else ''/* '' @ t_comment t @ '' */'' @ nl) @
             ''CREATE TABLE IF NOT EXISTS "'' @ t_name t @ ''" ('') a\<close>
    "prefix (tab @ fk @ nl @ '');'') b"
    "s = a @ b"
    by (rule sqliteTable_inline)
  with s show \<open>\<exists>s a b fk. sublist s out \<and> sqliteTable obj t = Some s \<and>
      getInlineFK t obj = Some fk \<and>
      prefix ((if t_comment t = [] then [] else ''/* '' @ t_comment t @ '' */'' @ nl) @
              ''CREATE TABLE IF NOT EXISTS "'' @ t_name t @ ''" ('') a \<and>
      prefix (tab @ fk @ nl @ '');'') b \<and>
      s = a @ b\<close>
    by (intro exI conjI)
qed

lemma ordersDiagram_find:
  "find (\<lambda>r. startTableId r = t_id ordersTable) (references ordersDiagram) = Some firstReference"
  by (simp add: ordersDiagram_def ordersTable_def firstReference_def)

lemma ordersDiagram_inline:
  \<open>inlineForeignKey ordersTable ordersDiagram firstReference =
     Some (''FOREIGN KEY ("user_id") REFERENCES "users"("id")'' @ nl @ tab @
           ''ON UPDATE NO ACTION ON DELETE CASCADE'')\<close>
  by (simp add: inlineForeignKey_def ordersDiagram_def ordersTable_def usersTable_def
      firstReference_def exampleField_def at_def toUpperCase_def upperChar_def lowers_def
      uppers_def)

lemma ordersDiagram_compiles: "jsonToSQLite ordersDiagram \<noteq> None"
proof -
  have "getInlineFK usersTable ordersDiagram = Some []"
    by (simp add: getInlineFK_find ordersDiagram_def usersTable_def firstReference_def
        secondReference_def)
  moreover have "getInlineFK ordersTable ordersDiagram \<noteq> None"
    by (simp add: getInlineFK_find ordersDiagram_find ordersDiagram_inline)
  ultimately have "sqliteTable ordersDiagram usersTable \<noteq> None"
    "sqliteTable ordersDiagram ordersTable \<noteq> None"
    by (auto simp: sqliteTable_def)
  then show ?thesis
    by (auto simp: jsonToSQLite_def ordersDiagram_def)
qed

theorem sqlite_inline_foreign_key_witness:
  \<open>getInlineFK ordersTable ordersDiagram =
     Some (''FOREIGN KEY ("user_id") REFERENCES "users"("id")'' @ nl @ tab @
           ''ON UPDATE NO ACTION ON DELETE CASCADE'') \<and>
   getInlineFK ordersTable (ordersDiagram\<lparr>references := [firstReference, secondReference]\<rparr>) =
   getInlineFK ordersTable (ordersDiagram\<lparr>references := [firstReference]\<rparr>) \<and>
   (\<exists>out ts s a b. jsonToSQLite ordersDiagram = Some out \<and>
      mapM (sqliteTable ordersDiagram) (tables ordersDiagram) = Some ts \<and> out = join nl ts \<and>
      sublist s out \<and> sqliteTable ordersDiagram ordersTable = Some s \<and>
      prefix (''CREATE TABLE IF NOT EXISTS "orders" ('') a \<and>
      prefix (tab @ (''FOREIGN KEY ("user_id") REFERENCES "users"("id")'' @ nl @ tab @
                     ''ON UPDATE NO ACTION ON DELETE CASCADE'') @ nl @ '');'') b \<and>
      s = a @ b)\<close>
proof -
  obtain out where out: "jsonToSQLite ordersDiagram = Some out"
    using ordersDiagram_compiles by auto
  note fk = sqlite_inline_foreign_key[of ordersTable ordersDiagram firstReference "[]"
      "[secondReference]" out]
  have 1: \<open>getInlineFK ordersTable ordersDiagram =
     Some (''FOREIGN KEY ("user_id") REFERENCES "users"("id")'' @ nl @ tab @
           ''ON UPDATE NO ACTION ON DELETE CASCADE'')\<close>
    using fk[THEN conjunct1] by (simp add: ordersDiagram_find ordersDiagram_inline)
  have m: "startTableId firstReference = t_id ordersTable"
    by (simp add: firstReference_def ordersTable_def)
  have 2: "getInlineFK ordersTable (ordersDiagram\<lparr>references := [firstReference, secondReference]\<rparr>) =
      getInlineFK ordersTable (ordersDiagram\<lparr>references := [firstReference]\<rparr>)"
    using fk[THEN conjunct2, THEN conjunct1, rule_format, OF m] by simp
  from fk[THEN conjunct2, THEN conjunct2, rule_format, OF out, THEN conjunct1]
  obtain ts where ts: "mapM (sqliteTable ordersDiagram) (tables ordersDiagram) = Some ts"
    "out = join nl ts"
    by (elim exE conjE) (rule that)
  have t: "ordersTable \<in> set (tables ordersDiagram)"
    by (simp add: ordersDiagram_def)
  have n: "t_comment ordersTable = []" "t_name ordersTable = ''orders''"
    by (simp_all add: ordersTable_def)
  from fk[THEN conjunct2, THEN conjunct2, rule_format, OF out, THEN conjunct2, rule_format, OF t]
  obtain s a b fk where s: "sublist s out" "sqliteTable ordersDiagram ordersTable = Some s"
    "getInlineFK ordersTable ordersDiagram = Some fk"
    \<open>prefix ((if t_comment ordersTable = [] then []
              else ''/* '' @ t_comment ordersTable @ '' */'' @ nl) @
             ''CREATE TABLE IF NOT EXISTS "'' @ t_name ordersTable @ ''" ('') a\<close>
    "prefix (tab @ fk @ nl @ '');'') b"
    "s = a @ b"
    by (elim exE conjE) (rule that)
  from s(3) 1 have fk: \<open>fk = ''FOREIGN KEY ("user_id") REFERENCES "users"("id")'' @ nl @ tab @
           ''ON UPDATE NO ACTION ON DELETE CASCADE''\<close>
    by simp
  from s(4) have a: \<open>prefix (''CREATE TABLE IF NOT EXISTS "orders" ('') a\<close>
    by (simp add: n)
  from out ts s(1,2) a s(5)[unfolded fk] s(6)
  have 3: \<open>\<exists>out ts s a b. jsonToSQLite ordersDiagram = Some out \<and>
      mapM (sqliteTable ordersDiagram) (tables ordersDiagram) = Some ts \<and> out = join nl ts \<and>
      sublist s out \<and> sqliteTable ordersDiagram ordersTable = Some s \<and>
      prefix (''CREATE TABLE IF NOT EXISTS "orders" ('') a \<and>
      prefix (tab @ (''FOREIGN KEY ("user_id") REFERENCES "users"("id")'' @ nl @ tab @
                     ''ON UPDATE NO ACTION ON DELETE CASCADE'') @ nl @ '');'') b \<and>
      s = a @ b\<close>
    by (intro exI conjI)
  from 1 2 3 show ?thesis by (intro conjI)
qed

section \<open>Referential actions\<close>












section \<open>Referential actions in the output\<close>


























end
